theory Spec2Isabelle
  imports Main "HOL-Library.Word"
begin

section \<open>JavaScript strings\<close>

text \<open>
  A JavaScript string is a sequence of UTF-16 code units; \<open>length\<close>, the regular
  expression engine and \<open>trim\<close> all work on code units. Literals of the source that
  are plain ASCII are written with \<open>ascii\<close>; the Chinese messages are given by their
  code units.
\<close>

type_synonym jsstring = "16 word list"

definition ascii :: "string \<Rightarrow> jsstring" where
  "ascii s = map of_char s"

definition digitChar :: "nat \<Rightarrow> 16 word" where
  "digitChar d = of_nat (48 + d)"

text \<open>\<open>String(n)\<close> for a non-negative integer such as \<open>response.status\<close>.\<close>

fun showNat :: "nat \<Rightarrow> jsstring" where
  "showNat n = (if n < 10 then [digitChar n] else showNat (n div 10) @ [digitChar (n mod 10)])"

declare showNat.simps [simp del]

fun joinWith :: "'a list \<Rightarrow> 'a list list \<Rightarrow> 'a list" where
  "joinWith sep [] = []"
| "joinWith sep [x] = x"
| "joinWith sep (x # y # ys) = x @ sep @ joinWith sep (y # ys)"

subsection \<open>The messages of the source\<close>

definition requestFailedPrefix :: jsstring where
  "requestFailedPrefix = ascii ''LaoZhang API '' @ [0x8BF7, 0x6C42, 0x5931, 0x8D25] @ ascii '' (''"

definition noValidDataMessage :: jsstring where
  "noValidDataMessage = ascii ''LaoZhang API '' @
     [0x6CA1, 0x6709, 0x8FD4, 0x56DE, 0x6709, 0x6548, 0x6570, 0x636E, 0x3002]"

definition unexpectedFormatMessage :: jsstring where
  "unexpectedFormatMessage = ascii ''LaoZhang API '' @
     [0x8FD4, 0x56DE, 0x7684, 0x6570, 0x636E, 0x683C, 0x5F0F, 0x4E0D, 0x7B26, 0x5408, 0x9884,
      0x671F, 0x3002]"

definition noImageMessage :: jsstring where
  "noImageMessage =
     [0x6A21, 0x578B, 0x6CA1, 0x6709, 0x8FD4, 0x56DE, 0x56FE, 0x7247, 0x3002, 0x8BF7, 0x5C1D,
      0x8BD5, 0x4E0D, 0x540C, 0x7684, 0x56FE, 0x7247, 0x6216, 0x63D0, 0x793A, 0x8BCD, 0x3002]"

definition modelResponsePrefix :: jsstring where
  \<open>modelResponsePrefix = [0x6A21, 0x578B, 0x54CD, 0x5E94] @ ascii '': "''\<close>

definition rateLimitMessage :: jsstring where
  "rateLimitMessage =
     [0x60A8, 0x53EF, 0x80FD, 0x5DF2, 0x8D85, 0x8FC7, 0x8BF7, 0x6C42, 0x9650, 0x5236, 0x3002,
      0x8BF7, 0x7A0D, 0x7B49, 0x7247, 0x523B, 0x540E, 0x518D, 0x8BD5, 0x3002]"

definition serverErrorMessage :: jsstring where
  "serverErrorMessage =
     [0x53D1, 0x751F, 0x4E86, 0x610F, 0x5916, 0x7684, 0x670D, 0x52A1, 0x5668, 0x9519, 0x8BEF,
      0x3002, 0x8FD9, 0x53EF, 0x80FD, 0x662F, 0x4E34, 0x65F6, 0x95EE, 0x9898, 0x3002, 0x8BF7,
      0x7A0D, 0x540E, 0x518D, 0x8BD5, 0x3002]"

definition unknownCommunicationMessage :: jsstring where
  "unknownCommunicationMessage = [0x4E0E] @ ascii '' API '' @
     [0x901A, 0x4FE1, 0x65F6, 0x53D1, 0x751F, 0x672A, 0x77E5, 0x9519, 0x8BEF, 0x3002]"

definition videoDisclaimer :: jsstring where
  "videoDisclaimer = [0x0A, 0x0A, 0x6CE8, 0x610F, 0xFF1A] @ ascii ''LaoZhang API '' @
     [0x4E0D, 0x76F4, 0x63A5, 0x652F, 0x6301, 0x89C6, 0x9891, 0x751F, 0x6210, 0xFF0C, 0x8FD9,
      0x91CC, 0x8FD4, 0x56DE, 0x7684, 0x662F, 0x5173, 0x952E, 0x5E27, 0x56FE, 0x50CF, 0x3002]"

definition videoFailedPrefix :: jsstring where
  "videoFailedPrefix = [0x89C6, 0x9891, 0x751F, 0x6210, 0x5931, 0x8D25] @ ascii '': ''"

definition unknownErrorText :: jsstring where
  "unknownErrorText = [0x672A, 0x77E5, 0x9519, 0x8BEF]"

section \<open>JSON values and the runtime\<close>

text \<open>
  The values that \<open>JSON.parse\<close> and \<open>response.json()\<close> produce, and that the object
  literals of the source build. A number keeps the text it was written with: what that
  text means as an IEEE double (whether it is zero, whether it is 500, how it prints) is
  the runtime's business and is taken from the \<open>platform\<close> record, as are the messages
  of the errors that the runtime itself throws. The value \<open>undefined\<close> is \<open>None\<close> of
  \<open>json option\<close>.
\<close>

datatype json =
    JNull
  | JBool bool
  | JNum jsstring
  | JStr jsstring
  | JArr "json list"
  | JObj "(jsstring \<times> json) list"

record platform =
  numberIsZero :: "jsstring \<Rightarrow> bool"
  numberIs500 :: "jsstring \<Rightarrow> bool"
  numberToString :: "jsstring \<Rightarrow> jsstring"
  numberToJSON :: "jsstring \<Rightarrow> jsstring"
  syntaxErrorMessage :: "jsstring \<Rightarrow> jsstring"
  bodyUsedMessage :: jsstring
  readNullMessage :: "jsstring \<Rightarrow> jsstring"
  readUndefinedMessage :: "jsstring \<Rightarrow> jsstring"
  notFunctionMessage :: jsstring
  toPrimitiveMessage :: jsstring

text \<open>What a \<open>throw\<close> carries: an \<open>Error\<close> object with its message, or anything else.\<close>

datatype thrown = ErrorObj jsstring | NonError

subsection \<open>\<open>JSON.stringify\<close>\<close>

definition hexDigit :: "nat \<Rightarrow> 16 word" where
  "hexDigit d = (if d < 10 then of_nat (48 + d) else of_nat (87 + d))"

definition unicodeEscape :: "16 word \<Rightarrow> jsstring" where
  "unicodeEscape c = [0x5C, 0x75, hexDigit (unat c div 4096 mod 16), hexDigit (unat c div 256 mod 16),
     hexDigit (unat c div 16 mod 16), hexDigit (unat c mod 16)]"

definition isHighSurrogate :: "16 word \<Rightarrow> bool" where
  "isHighSurrogate c = (0xD800 \<le> c \<and> c \<le> 0xDBFF)"

definition isLowSurrogate :: "16 word \<Rightarrow> bool" where
  "isLowSurrogate c = (0xDC00 \<le> c \<and> c \<le> 0xDFFF)"

definition escapeUnit :: "16 word \<Rightarrow> jsstring" where
  "escapeUnit c =
     (if c = 0x08 then [0x5C, 0x62] else if c = 0x09 then [0x5C, 0x74]
      else if c = 0x0A then [0x5C, 0x6E] else if c = 0x0C then [0x5C, 0x66]
      else if c = 0x0D then [0x5C, 0x72] else if c = 0x22 then [0x5C, 0x22]
      else if c = 0x5C then [0x5C, 0x5C]
      else if c < 0x20 \<or> isHighSurrogate c \<or> isLowSurrogate c then unicodeEscape c
      else [c])"

text \<open>
  The characters of a quoted string: a well-formed surrogate pair is copied, a lone
  surrogate and a control character are escaped.
\<close>

fun quoteUnits :: "jsstring \<Rightarrow> jsstring" where
  "quoteUnits [] = []"
| "quoteUnits [c] = escapeUnit c"
| "quoteUnits (c # d # ds) =
     (if isHighSurrogate c \<and> isLowSurrogate d then c # d # quoteUnits ds
      else escapeUnit c @ quoteUnits (d # ds))"

definition quoteJSONString :: "jsstring \<Rightarrow> jsstring" where
  "quoteJSONString s = [0x22] @ quoteUnits s @ [0x22]"

text \<open>
  Properties are written in the order of the object, which is the order of creation for
  the keys that the source uses (none of them is an array index).
\<close>

fun JSON_stringify :: "platform \<Rightarrow> json \<Rightarrow> jsstring" where
  "JSON_stringify p JNull = ascii ''null''"
| "JSON_stringify p (JBool b) = (if b then ascii ''true'' else ascii ''false'')"
| "JSON_stringify p (JNum l) = numberToJSON p l"
| "JSON_stringify p (JStr s) = quoteJSONString s"
| "JSON_stringify p (JArr xs) =
     ascii ''['' @ joinWith (ascii '','') (map (JSON_stringify p) xs) @ ascii '']''"
| "JSON_stringify p (JObj kvs) =
     ascii ''{'' @
     joinWith (ascii '','')
       (map (\<lambda>(k, v). quoteJSONString k @ ascii '':'' @ JSON_stringify p v) kvs) @
     ascii ''}''"

section \<open>The request of \<open>editImage\<close>\<close>

record secondary_image =
  base64 :: jsstring
  mimeType :: jsstring

record environment =
  API_KEY :: jsstring
  BASE_URL :: jsstring

record http_request =
  url :: jsstring
  httpMethod :: jsstring
  headers :: "(jsstring \<times> jsstring) list"
  body :: jsstring

definition textBlock :: "jsstring \<Rightarrow> json" where
  "textBlock t = JObj [(ascii ''type'', JStr (ascii ''text'')), (ascii ''text'', JStr t)]"

definition imageBlock :: "jsstring \<Rightarrow> json" where
  "imageBlock u =
     JObj [(ascii ''type'', JStr (ascii ''image_url'')),
           (ascii ''image_url'', JObj [(ascii ''url'', JStr u)])]"

definition dataUrl :: "jsstring \<Rightarrow> jsstring \<Rightarrow> jsstring" where
  "dataUrl mime b64 = ascii ''data:'' @ mime @ ascii '';base64,'' @ b64"

definition maskedPrompt :: "jsstring \<Rightarrow> jsstring" where
  \<open>maskedPrompt prompt =
     ascii ''Apply the following instruction only to the masked area of the image: "'' @ prompt @
     ascii ''". Preserve the unmasked area.''\<close>

text \<open>Assignment to a property of an object: an existing key keeps its place.\<close>

fun setProp :: "jsstring \<Rightarrow> json \<Rightarrow> (jsstring \<times> json) list \<Rightarrow> (jsstring \<times> json) list" where
  "setProp k v [] = [(k, v)]"
| "setProp k v ((k', v') # kvs) = (if k' = k then (k, v) # kvs else (k', v') # setProp k v kvs)"

definition assignText :: "jsstring \<Rightarrow> json \<Rightarrow> json" where
  "assignText t b = (case b of JObj kvs \<Rightarrow> JObj (setProp (ascii ''text'') (JStr t) kvs) | _ \<Rightarrow> b)"

text \<open>
  Lines 52 to 91: the \<open>content\<close> array. \<open>if (maskBase64)\<close> is the truthiness of a
  \<open>string | null\<close>: \<open>null\<close> and the empty string both skip the branch.
  \<open>content[0].text = fullPrompt\<close> updates the first block in place.
\<close>

definition contentBlocks ::
  "jsstring \<Rightarrow> jsstring \<Rightarrow> jsstring \<Rightarrow> jsstring option \<Rightarrow> secondary_image option \<Rightarrow> json list" where
  "contentBlocks base64ImageData mimeType' prompt maskBase64 secondaryImage =
     (let fullPrompt = prompt;
          content0 = [textBlock fullPrompt];
          content1 = content0 @ [imageBlock (dataUrl mimeType' base64ImageData)];
          content2 =
            (case maskBase64 of
               None \<Rightarrow> content1
             | Some m \<Rightarrow>
                 if m = [] then content1
                 else (case content1 of
                         [] \<Rightarrow> []
                       | b # bs \<Rightarrow> assignText (maskedPrompt prompt) b # bs) @
                      [imageBlock (ascii ''data:image/png;base64,'' @ m)]);
          content3 =
            (case secondaryImage of
               None \<Rightarrow> content2
             | Some s \<Rightarrow> content2 @ [imageBlock (dataUrl (mimeType s) (base64 s))])
      in content3)"

definition requestBody ::
  "jsstring \<Rightarrow> jsstring \<Rightarrow> jsstring \<Rightarrow> jsstring option \<Rightarrow> secondary_image option \<Rightarrow> json" where
  "requestBody base64ImageData mimeType' prompt maskBase64 secondaryImage =
     JObj [(ascii ''model'', JStr (ascii ''gemini-2.5-flash-image-preview'')),
           (ascii ''stream'', JBool False),
           (ascii ''messages'',
              JArr [JObj [(ascii ''role'', JStr (ascii ''user'')),
                          (ascii ''content'',
                             JArr (contentBlocks base64ImageData mimeType' prompt maskBase64
                                     secondaryImage))]])]"

text \<open>Lines 104 to 111: what is handed to \<open>fetch\<close>.\<close>

definition fetchRequest ::
  "platform \<Rightarrow> environment \<Rightarrow> jsstring \<Rightarrow> jsstring \<Rightarrow> jsstring \<Rightarrow> jsstring option \<Rightarrow>
   secondary_image option \<Rightarrow> http_request" where
  "fetchRequest p e base64ImageData mimeType' prompt maskBase64 secondaryImage =
     \<lparr>url = BASE_URL e @ ascii ''/chat/completions'',
      httpMethod = ascii ''POST'',
      headers = [(ascii ''Authorization'', ascii ''Bearer '' @ API_KEY e),
                 (ascii ''Content-Type'', ascii ''application/json'')],
      body = JSON_stringify p
               (requestBody base64ImageData mimeType' prompt maskBase64 secondaryImage)\<rparr>"

section \<open>The regular expression \<open>imageUrlRegex\<close>\<close>

text \<open>
  The pattern of line 146, flags \<open>g\<close> and \<open>i\<close>, in the backtracking semantics of
  ECMAScript: a matcher takes the state (the input that is left, and the text of capture
  group 1) and a continuation, and succeeds with the continuation's answer. The pattern
  has no look-behind, word boundary or back-reference, so a match that starts at some
  index depends only on the input from that index on.
\<close>

type_synonym mstate = "jsstring \<times> jsstring option"

type_synonym continuation = "mstate \<Rightarrow> mstate option"

type_synonym matcher = "mstate \<Rightarrow> continuation \<Rightarrow> mstate option"

text \<open>
  Case folding of the \<open>i\<close> flag. Every literal character of the pattern is ASCII, and
  ECMAScript never folds a code unit of 128 or more to one below 128, so upper-casing
  the ASCII letters decides every comparison with a pattern character as the runtime does.
\<close>

definition canonicalize :: "16 word \<Rightarrow> 16 word" where
  "canonicalize c = (if 0x61 \<le> c \<and> c \<le> 0x7A then c - 0x20 else c)"

definition charSet :: "(16 word \<Rightarrow> bool) \<Rightarrow> matcher" where
  "charSet P x k = (case fst x of [] \<Rightarrow> None | c # cs \<Rightarrow> if P c then k (cs, snd x) else None)"

definition lit :: "16 word \<Rightarrow> matcher" where
  "lit a = charSet (\<lambda>c. canonicalize c = canonicalize a)"

definition seq :: "matcher \<Rightarrow> matcher \<Rightarrow> matcher" where
  "seq m1 m2 x k = m1 x (\<lambda>y. m2 y k)"

definition alt :: "matcher \<Rightarrow> matcher \<Rightarrow> matcher" where
  "alt m1 m2 x k = (case m1 x k of Some r \<Rightarrow> Some r | None \<Rightarrow> m2 x k)"

definition empty :: matcher where
  "empty x k = k x"

text \<open>\<open>m?\<close>, greedy.\<close>

definition opt :: "matcher \<Rightarrow> matcher" where
  "opt m = alt m empty"

fun lits :: "jsstring \<Rightarrow> matcher" where
  "lits [] = empty"
| "lits (a # as) = seq (lit a) (lits as)"

text \<open>\<open>[...]*\<close> over one character class, greedy: the longest run first.\<close>

fun starGreedy :: "(16 word \<Rightarrow> bool) \<Rightarrow> jsstring \<Rightarrow> jsstring option \<Rightarrow> continuation \<Rightarrow> mstate option" where
  "starGreedy P [] g k = k ([], g)"
| "starGreedy P (c # cs) g k =
     (if P c then (case starGreedy P cs g k of Some r \<Rightarrow> Some r | None \<Rightarrow> k (c # cs, g))
      else k (c # cs, g))"

definition plusGreedy :: "(16 word \<Rightarrow> bool) \<Rightarrow> matcher" where
  "plusGreedy P = seq (charSet P) (\<lambda>x k. starGreedy P (fst x) (snd x) k)"

text \<open>\<open>.*?\<close> over one character class, lazy: the shortest run first.\<close>

fun starLazy :: "(16 word \<Rightarrow> bool) \<Rightarrow> jsstring \<Rightarrow> jsstring option \<Rightarrow> continuation \<Rightarrow> mstate option" where
  "starLazy P [] g k = k ([], g)"
| "starLazy P (c # cs) g k =
     (case k (c # cs, g) of Some r \<Rightarrow> Some r
      | None \<Rightarrow> if P c then starLazy P cs g k else None)"

text \<open>Capture group 1: the text that the group's matcher consumed.\<close>

definition group1 :: "matcher \<Rightarrow> matcher" where
  "group1 m x k = m x (\<lambda>y. k (fst y, Some (take (length (fst x) - length (fst y)) (fst x))))"

subsection \<open>The character classes\<close>

definition isLineTerminator :: "16 word \<Rightarrow> bool" where
  "isLineTerminator c = (c = 0x0A \<or> c = 0x0D \<or> c = 0x2028 \<or> c = 0x2029)"

text \<open>\<open>\s\<close>, and what \<open>trim\<close> strips: white space and line terminators.\<close>

definition isSpace :: "16 word \<Rightarrow> bool" where
  "isSpace c =
     (c = 0x09 \<or> c = 0x0A \<or> c = 0x0B \<or> c = 0x0C \<or> c = 0x0D \<or> c = 0x20 \<or> c = 0xA0 \<or>
      c = 0x1680 \<or> (0x2000 \<le> c \<and> c \<le> 0x200A) \<or> c = 0x2028 \<or> c = 0x2029 \<or>
      c = 0x202F \<or> c = 0x205F \<or> c = 0x3000 \<or> c = 0xFEFF)"

definition dot :: "16 word \<Rightarrow> bool" where
  "dot c = (\<not> isLineTerminator c)"

text \<open>\<open>[^\s)]\<close>\<close>

definition notSpaceParen :: "16 word \<Rightarrow> bool" where
  "notSpaceParen c = (\<not> isSpace c \<and> c \<noteq> 0x29)"

text \<open>\<open>[^\s\[\]()]\<close>\<close>

definition urlChar :: "16 word \<Rightarrow> bool" where
  "urlChar c = (\<not> isSpace c \<and> c \<noteq> 0x5B \<and> c \<noteq> 0x5D \<and> c \<noteq> 0x28 \<and> c \<noteq> 0x29)"

text \<open>\<open>[^;]\<close>\<close>

definition notSemicolon :: "16 word \<Rightarrow> bool" where
  "notSemicolon c = (c \<noteq> 0x3B)"

text \<open>\<open>[A-Za-z0-9+\/=]\<close>, a class that case folding leaves as it is.\<close>

definition base64Char :: "16 word \<Rightarrow> bool" where
  "base64Char c =
     ((0x41 \<le> c \<and> c \<le> 0x5A) \<or> (0x61 \<le> c \<and> c \<le> 0x7A) \<or> (0x30 \<le> c \<and> c \<le> 0x39) \<or>
      c = 0x2B \<or> c = 0x2F \<or> c = 0x3D)"

subsection \<open>The pattern\<close>

text \<open>\<open>https?:\/\/\<close>\<close>

definition httpScheme :: matcher where
  "httpScheme = seq (lits (ascii ''http'')) (seq (opt (lit 0x73)) (lits (ascii ''://'')))"

text \<open>\<open>data:image\/[^;]+;base64,[A-Za-z0-9+\/=]+\<close>\<close>

definition dataUri :: matcher where
  "dataUri =
     seq (lits (ascii ''data:image/''))
       (seq (plusGreedy notSemicolon) (seq (lits (ascii '';base64,'')) (plusGreedy base64Char)))"

text \<open>\<open>(?:png|jpg|jpeg|gif|webp)\<close>\<close>

definition imageExtension :: matcher where
  "imageExtension =
     alt (lits (ascii ''png''))
       (alt (lits (ascii ''jpg''))
          (alt (lits (ascii ''jpeg'')) (alt (lits (ascii ''gif'')) (lits (ascii ''webp'')))))"

text \<open>\<open>!\[.*?\]\(((?:https?:\/\/[^\s)]+|data:image\/[^;]+;base64,[A-Za-z0-9+\/=]+))\)\<close>\<close>

definition markdownImage :: matcher where
  "markdownImage =
     seq (lits (ascii ''!['' ))
       (seq (\<lambda>x k. starLazy dot (fst x) (snd x) k)
          (seq (lits (ascii '']('' ))
             (seq (group1 (alt (seq httpScheme (plusGreedy notSpaceParen)) dataUri))
                (lit 0x29))))"

text \<open>
  \<open>(?:https?:\/\/[^\s\[\]()]+\.(?:png|jpg|jpeg|gif|webp)|data:image\/[^;]+;base64,[A-Za-z0-9+\/=]+)\<close>
\<close>

definition bareImage :: matcher where
  "bareImage =
     alt (seq httpScheme (seq (plusGreedy urlChar) (seq (lit 0x2E) imageExtension))) dataUri"

definition imageUrlRegex :: matcher where
  "imageUrlRegex = alt markdownImage bareImage"

text \<open>
  A match anchored at the start of the given text: \<open>match[0]\<close> and \<open>match[1]\<close>.
\<close>

definition matchAt :: "jsstring \<Rightarrow> (jsstring \<times> jsstring option) option" where
  "matchAt s =
     (case imageUrlRegex (s, None) Some of
        None \<Rightarrow> None
      | Some y \<Rightarrow> Some (take (length s - length (fst y)) s, snd y))"

text \<open>
  The search of \<open>exec\<close> from the current position on: the number of characters skipped
  before the leftmost match, \<open>match[0]\<close> and \<open>match[1]\<close>.
\<close>

fun searchFrom :: "jsstring \<Rightarrow> (nat \<times> jsstring \<times> jsstring option) option" where
  "searchFrom [] = (case matchAt [] of None \<Rightarrow> None | Some (w, g) \<Rightarrow> Some (0, w, g))"
| "searchFrom (c # cs) =
     (case matchAt (c # cs) of
        Some (w, g) \<Rightarrow> Some (0, w, g)
      | None \<Rightarrow> (case searchFrom cs of None \<Rightarrow> None | Some (n, w, g) \<Rightarrow> Some (Suc n, w, g)))"

section \<open>\<open>JSON.parse\<close>\<close>

text \<open>
  The JSON grammar of ECMA-404, which \<open>JSON.parse\<close> and \<open>response.json()\<close> accept: a
  recursive-descent parser from a text to a value and the text that is left. A repeated
  key of an object overwrites the earlier value and keeps its place. The parser runs on
  fuel, one unit for each nested call; \<open>JSON_parse\<close> gives it more than twice the length
  of the text, and every nested call comes after at least one consumed character.
\<close>

definition isJsonWhitespace :: "16 word \<Rightarrow> bool" where
  "isJsonWhitespace c = (c = 0x20 \<or> c = 0x09 \<or> c = 0x0A \<or> c = 0x0D)"

definition skipWhitespace :: "jsstring \<Rightarrow> jsstring" where
  "skipWhitespace s = dropWhile isJsonWhitespace s"

definition isDigit :: "16 word \<Rightarrow> bool" where
  "isDigit c = (0x30 \<le> c \<and> c \<le> 0x39)"

definition hexValue :: "16 word \<Rightarrow> 16 word option" where
  "hexValue c =
     (if 0x30 \<le> c \<and> c \<le> 0x39 then Some (c - 0x30)
      else if 0x41 \<le> c \<and> c \<le> 0x46 then Some (c - 0x37)
      else if 0x61 \<le> c \<and> c \<le> 0x66 then Some (c - 0x57)
      else None)"

definition hex4 :: "16 word \<Rightarrow> 16 word \<Rightarrow> 16 word \<Rightarrow> 16 word \<Rightarrow> 16 word option" where
  "hex4 a b c d =
     (case (hexValue a, hexValue b, hexValue c, hexValue d) of
        (Some x, Some y, Some z, Some w) \<Rightarrow> Some (x * 4096 + y * 256 + z * 16 + w)
      | _ \<Rightarrow> None)"

text \<open>The character that a two-character escape stands for.\<close>

definition escapedChar :: "16 word \<Rightarrow> 16 word option" where
  "escapedChar e =
     (if e = 0x22 then Some 0x22 else if e = 0x5C then Some 0x5C else if e = 0x2F then Some 0x2F
      else if e = 0x62 then Some 0x08 else if e = 0x66 then Some 0x0C
      else if e = 0x6E then Some 0x0A else if e = 0x72 then Some 0x0D
      else if e = 0x74 then Some 0x09 else None)"

definition consChar :: "16 word \<Rightarrow> (jsstring \<times> jsstring) option \<Rightarrow> (jsstring \<times> jsstring) option" where
  "consChar c r = (case r of None \<Rightarrow> None | Some (s, t) \<Rightarrow> Some (c # s, t))"

text \<open>The characters of a string after its opening quote, up to the closing quote.\<close>

fun parseChars :: "jsstring \<Rightarrow> (jsstring \<times> jsstring) option" where
  "parseChars [] = None"
| "parseChars [c] = (if c = 0x22 then Some ([], []) else None)"
| "parseChars (c # e # es) =
     (if c = 0x22 then Some ([], e # es)
      else if c = 0x5C then
        (if e = 0x75 then
           (case es of
              h1 # h2 # h3 # h4 # t \<Rightarrow>
                (case hex4 h1 h2 h3 h4 of None \<Rightarrow> None | Some u \<Rightarrow> consChar u (parseChars t))
            | _ \<Rightarrow> None)
         else (case escapedChar e of None \<Rightarrow> None | Some u \<Rightarrow> consChar u (parseChars es)))
      else if c < 0x20 then None
      else consChar c (parseChars (e # es)))"

text \<open>A number: \<open>-? (0 | [1-9][0-9]*) (. [0-9]+)? ([eE] [+-]? [0-9]+)?\<close>, kept as written.\<close>

definition exponentPart :: "jsstring \<Rightarrow> jsstring \<Rightarrow> (jsstring \<times> jsstring) option" where
  "exponentPart lexeme s =
     (case s of
        [] \<Rightarrow> Some (lexeme, s)
      | c # cs \<Rightarrow>
          if c = 0x65 \<or> c = 0x45 then
            (let sign = (case cs of [] \<Rightarrow> [] | d # ds \<Rightarrow> if d = 0x2B \<or> d = 0x2D then [d] else []);
                 t = drop (length sign) cs;
                 digits = takeWhile isDigit t
             in if digits = [] then None
                else Some (lexeme @ c # sign @ digits, dropWhile isDigit t))
          else Some (lexeme, s))"

definition fractionPart :: "jsstring \<Rightarrow> jsstring \<Rightarrow> (jsstring \<times> jsstring) option" where
  "fractionPart lexeme s =
     (case s of
        [] \<Rightarrow> exponentPart lexeme s
      | c # cs \<Rightarrow>
          if c = 0x2E then
            (let digits = takeWhile isDigit cs
             in if digits = [] then None
                else exponentPart (lexeme @ c # digits) (dropWhile isDigit cs))
          else exponentPart lexeme s)"

definition parseNumber :: "jsstring \<Rightarrow> (jsstring \<times> jsstring) option" where
  "parseNumber s =
     (let sign = (case s of [] \<Rightarrow> [] | c # cs \<Rightarrow> if c = 0x2D then [c] else []);
          t = drop (length sign) s
      in case t of
           [] \<Rightarrow> None
         | d # ds \<Rightarrow>
             if d = 0x30 then fractionPart (sign @ [d]) ds
             else if isDigit d then
               fractionPart (sign @ d # takeWhile isDigit ds) (dropWhile isDigit ds)
             else None)"

definition literalAt :: "jsstring \<Rightarrow> jsstring \<Rightarrow> jsstring option" where
  "literalAt l s = (if take (length l) s = l then Some (drop (length l) s) else None)"

fun parseValue :: "nat \<Rightarrow> jsstring \<Rightarrow> (json \<times> jsstring) option"
  and parseElements :: "nat \<Rightarrow> jsstring \<Rightarrow> json list \<Rightarrow> (json \<times> jsstring) option"
  and parseMembers :: "nat \<Rightarrow> jsstring \<Rightarrow> (jsstring \<times> json) list \<Rightarrow> (json \<times> jsstring) option" where
  "parseValue 0 s = None"
| "parseValue (Suc n) s =
     (case skipWhitespace s of
        [] \<Rightarrow> None
      | c # cs \<Rightarrow>
          if c = 0x7B then
            (case skipWhitespace cs of
               [] \<Rightarrow> None
             | d # ds \<Rightarrow> if d = 0x7D then Some (JObj [], ds) else parseMembers n (d # ds) [])
          else if c = 0x5B then
            (case skipWhitespace cs of
               [] \<Rightarrow> None
             | d # ds \<Rightarrow> if d = 0x5D then Some (JArr [], ds) else parseElements n (d # ds) [])
          else if c = 0x22 then
            (case parseChars cs of None \<Rightarrow> None | Some (str, t) \<Rightarrow> Some (JStr str, t))
          else if c = 0x2D \<or> isDigit c then
            (case parseNumber (c # cs) of None \<Rightarrow> None | Some (l, t) \<Rightarrow> Some (JNum l, t))
          else if c = 0x74 then
            (case literalAt (ascii ''true'') (c # cs) of None \<Rightarrow> None
             | Some t \<Rightarrow> Some (JBool True, t))
          else if c = 0x66 then
            (case literalAt (ascii ''false'') (c # cs) of None \<Rightarrow> None
             | Some t \<Rightarrow> Some (JBool False, t))
          else if c = 0x6E then
            (case literalAt (ascii ''null'') (c # cs) of None \<Rightarrow> None
             | Some t \<Rightarrow> Some (JNull, t))
          else None)"
| "parseElements 0 s acc = None"
| "parseElements (Suc n) s acc =
     (case parseValue n s of
        None \<Rightarrow> None
      | Some (v, t) \<Rightarrow>
          (case skipWhitespace t of
             [] \<Rightarrow> None
           | c # cs \<Rightarrow>
               if c = 0x2C then parseElements n cs (acc @ [v])
               else if c = 0x5D then Some (JArr (acc @ [v]), cs)
               else None))"
| "parseMembers 0 s acc = None"
| "parseMembers (Suc n) s acc =
     (case skipWhitespace s of
        [] \<Rightarrow> None
      | c # cs \<Rightarrow>
          if c = 0x22 then
            (case parseChars cs of
               None \<Rightarrow> None
             | Some (key, t) \<Rightarrow>
                 (case skipWhitespace t of
                    [] \<Rightarrow> None
                  | d # ds \<Rightarrow>
                      if d = 0x3A then
                        (case parseValue n ds of
                           None \<Rightarrow> None
                         | Some (v, t') \<Rightarrow>
                             (case skipWhitespace t' of
                                [] \<Rightarrow> None
                              | e # es \<Rightarrow>
                                  if e = 0x2C then parseMembers n es (setProp key v acc)
                                  else if e = 0x7D then Some (JObj (setProp key v acc), es)
                                  else None))
                      else None))
          else None)"

definition JSON_parse :: "jsstring \<Rightarrow> json option" where
  "JSON_parse s =
     (case parseValue (Suc (Suc (2 * length s))) s of
        None \<Rightarrow> None
      | Some (v, t) \<Rightarrow> if skipWhitespace t = [] then Some v else None)"

section \<open>JavaScript operations on the parsed values\<close>

text \<open>
  Truthiness, as \<open>if\<close>, \<open>!\<close> and \<open>&&\<close> test it.
\<close>

definition truthy :: "platform \<Rightarrow> json option \<Rightarrow> bool" where
  "truthy p v =
     (case v of
        None \<Rightarrow> False
      | Some JNull \<Rightarrow> False
      | Some (JBool b) \<Rightarrow> b
      | Some (JNum l) \<Rightarrow> \<not> numberIsZero p l
      | Some (JStr s) \<Rightarrow> s \<noteq> []
      | Some (JArr xs) \<Rightarrow> True
      | Some (JObj kvs) \<Rightarrow> True)"

text \<open>
  Reading one of the properties \<open>error\<close>, \<open>message\<close>, \<open>status\<close>, \<open>code\<close>, \<open>choices\<close> or
  \<open>content\<close>: of \<open>undefined\<close> and \<open>null\<close> it throws a \<open>TypeError\<close>, of an object it is
  the own property (no prototype has one of these names), of anything else it is
  \<open>undefined\<close>.
\<close>

definition getProp :: "platform \<Rightarrow> json option \<Rightarrow> jsstring \<Rightarrow> thrown + json option" where
  "getProp p v name =
     (case v of
        None \<Rightarrow> Inl (ErrorObj (readUndefinedMessage p name))
      | Some JNull \<Rightarrow> Inl (ErrorObj (readNullMessage p name))
      | Some (JObj kvs) \<Rightarrow> Inr (map_of kvs name)
      | Some _ \<Rightarrow> Inr None)"

text \<open>\<open>v.length === 0\<close> for a truthy \<open>v\<close>.\<close>

definition lengthIsZero :: "platform \<Rightarrow> json option \<Rightarrow> bool" where
  "lengthIsZero p v =
     (case v of
        Some (JArr xs) \<Rightarrow> xs = []
      | Some (JStr s) \<Rightarrow> s = []
      | Some (JObj kvs) \<Rightarrow>
          (case map_of kvs (ascii ''length'') of Some (JNum l) \<Rightarrow> numberIsZero p l | _ \<Rightarrow> False)
      | _ \<Rightarrow> False)"

text \<open>\<open>v[0]\<close> for a truthy \<open>v\<close>.\<close>

definition firstElement :: "json option \<Rightarrow> json option" where
  "firstElement v =
     (case v of
        Some (JArr xs) \<Rightarrow> (case xs of [] \<Rightarrow> None | x # _ \<Rightarrow> Some x)
      | Some (JStr s) \<Rightarrow> (case s of [] \<Rightarrow> None | c # _ \<Rightarrow> Some (JStr [c]))
      | Some (JObj kvs) \<Rightarrow> map_of kvs (ascii ''0'')
      | _ \<Rightarrow> None)"

text \<open>
  \<open>ToString\<close>, as a template literal, \<open>new Error(v)\<close> and \<open>exec(v)\<close> apply it. A parsed
  object prints as \<open>[object Object]\<close>, unless it has a property \<open>toString\<close> of its own:
  that one is not callable, and the conversion throws a \<open>TypeError\<close>. An array is joined
  with commas, \<open>null\<close> elements printing as nothing.
\<close>

fun toStringJS :: "platform \<Rightarrow> json \<Rightarrow> thrown + jsstring"
  and joinElements :: "platform \<Rightarrow> json list \<Rightarrow> thrown + jsstring" where
  "toStringJS p JNull = Inr (ascii ''null'')"
| "toStringJS p (JBool b) = Inr (if b then ascii ''true'' else ascii ''false'')"
| "toStringJS p (JNum l) = Inr (numberToString p l)"
| "toStringJS p (JStr s) = Inr s"
| "toStringJS p (JArr xs) = joinElements p xs"
| "toStringJS p (JObj kvs) =
     (if map_of kvs (ascii ''toString'') = None then Inr (ascii ''[object Object]'')
      else Inl (ErrorObj (toPrimitiveMessage p)))"
| "joinElements p [] = Inr []"
| "joinElements p (x # xs) =
     (case (if x = JNull then Inr [] else toStringJS p x) of
        Inl e \<Rightarrow> Inl e
      | Inr a \<Rightarrow>
          (if xs = [] then Inr a
           else (case joinElements p xs of Inl e \<Rightarrow> Inl e | Inr b \<Rightarrow> Inr (a @ ascii '','' @ b))))"

section \<open>What a match of the pattern looks like\<close>

text \<open>
  A matcher is sound for a relation when every success goes through the continuation at a
  state that the relation allows: the consumed text is a prefix of the input, and the
  relation holds of that text and of capture group 1 before and after.
\<close>

definition sound :: "matcher \<Rightarrow> (jsstring \<Rightarrow> jsstring option \<Rightarrow> jsstring option \<Rightarrow> bool) \<Rightarrow> bool" where
  "sound m R = (\<forall>x k r. m x k = Some r \<longrightarrow> (\<exists>u y. fst x = u @ fst y \<and> R u (snd x) (snd y) \<and> k y = Some r))"

definition eats :: "(jsstring \<Rightarrow> bool) \<Rightarrow> jsstring \<Rightarrow> jsstring option \<Rightarrow> jsstring option \<Rightarrow> bool" where
  "eats U u g g' = (U u \<and> g' = g)"

lemma soundI: "(\<And>x k r. m x k = Some r \<Longrightarrow> \<exists>u y. fst x = u @ fst y \<and> R u (snd x) (snd y) \<and> k y = Some r) \<Longrightarrow> sound m R"
  by (simp add: sound_def)

lemma soundD: "sound m R \<Longrightarrow> m x k = Some r \<Longrightarrow> \<exists>u y. fst x = u @ fst y \<and> R u (snd x) (snd y) \<and> k y = Some r"
  unfolding sound_def by (drule spec, drule spec, drule spec, drule (1) mp, assumption)

lemma sound_mono:
  assumes "sound m R" and "\<And>u g g'. R u g g' \<Longrightarrow> R' u g g'"
  shows "sound m R'"
proof (rule soundI)
  fix x k r
  assume "m x k = Some r"
  from soundD [OF assms(1) this] obtain u y where
    "fst x = u @ fst y" "R u (snd x) (snd y)" "k y = Some r" by blast
  with assms(2) show "\<exists>u y. fst x = u @ fst y \<and> R' u (snd x) (snd y) \<and> k y = Some r"
    by blast
qed

lemma sound_charSet: "sound (charSet P) (eats (\<lambda>u. \<exists>c. u = [c] \<and> P c))"
proof (rule soundI)
  fix x k r
  assume a: "charSet P x k = Some r"
  then obtain c cs where x: "fst x = c # cs" by (cases "fst x") (auto simp: charSet_def)
  with a have "P c" and "k (cs, snd x) = Some r" by (auto simp: charSet_def split: if_splits)
  with x show "\<exists>u y. fst x = u @ fst y \<and> eats (\<lambda>u. \<exists>c. u = [c] \<and> P c) u (snd x) (snd y) \<and> k y = Some r"
    by (intro exI [of _ "[c]"] exI [of _ "(cs, snd x)"]) (simp add: eats_def)
qed

lemma sound_lit: "sound (lit a) (eats (\<lambda>u. \<exists>c. u = [c] \<and> canonicalize c = canonicalize a))"
  unfolding lit_def by (rule sound_charSet)

lemma sound_empty: "sound empty (eats (\<lambda>u. u = []))"
proof (rule soundI)
  fix x k r
  assume "empty x k = Some r"
  then have "k x = Some r" by (simp add: empty_def)
  then show "\<exists>u y. fst x = u @ fst y \<and> eats (\<lambda>u. u = []) u (snd x) (snd y) \<and> k y = Some r"
    by (intro exI [of _ "[]"] exI [of _ x]) (simp add: eats_def)
qed

lemma sound_seq:
  assumes "sound m1 R1" and "sound m2 R2"
  shows "sound (seq m1 m2) (\<lambda>w g g''. \<exists>u v g'. w = u @ v \<and> R1 u g g' \<and> R2 v g' g'')"
proof (rule soundI)
  fix x k r
  assume "seq m1 m2 x k = Some r"
  then have "m1 x (\<lambda>y. m2 y k) = Some r" by (simp add: seq_def)
  from soundD [OF assms(1) this] obtain u y where
    1: "fst x = u @ fst y" "R1 u (snd x) (snd y)" "m2 y k = Some r" by blast
  from soundD [OF assms(2) 1(3)] obtain v z where
    2: "fst y = v @ fst z" "R2 v (snd y) (snd z)" "k z = Some r" by blast
  from 1 2 show "\<exists>u y. fst x = u @ fst y \<and> (\<exists>ua v g'. u = ua @ v \<and> R1 ua (snd x) g' \<and> R2 v g' (snd y)) \<and> k y = Some r"
    by (intro exI [of _ "u @ v"] exI [of _ z]) auto
qed

lemma sound_alt:
  assumes "sound m1 R1" and "sound m2 R2"
  shows "sound (alt m1 m2) (\<lambda>w g g'. R1 w g g' \<or> R2 w g g')"
proof (rule soundI)
  fix x k r
  assume a: "alt m1 m2 x k = Some r"
  show "\<exists>u y. fst x = u @ fst y \<and> (R1 u (snd x) (snd y) \<or> R2 u (snd x) (snd y)) \<and> k y = Some r"
  proof (cases "m1 x k")
    case None
    with a have "m2 x k = Some r" by (simp add: alt_def)
    from soundD [OF assms(2) this] show ?thesis by blast
  next
    case (Some r')
    with a have "m1 x k = Some r" by (simp add: alt_def)
    from soundD [OF assms(1) this] show ?thesis by blast
  qed
qed

lemma starGreedy_sound:
  "starGreedy P s g k = Some r \<Longrightarrow> \<exists>u t. s = u @ t \<and> list_all P u \<and> k (t, g) = Some r"
proof (induction s)
  case Nil
  then show ?case by simp
next
  case (Cons c cs)
  show ?case
  proof (cases "P c \<and> starGreedy P cs g k \<noteq> None")
    case True
    with Cons.prems have "starGreedy P cs g k = Some r" by (auto split: option.splits)
    from Cons.IH [OF this] obtain u t where "cs = u @ t" "list_all P u" "k (t, g) = Some r" by blast
    with True show ?thesis by (intro exI [of _ "c # u"] exI [of _ t]) simp
  next
    case False
    with Cons.prems have "k (c # cs, g) = Some r" by (auto split: option.splits if_splits)
    then show ?thesis by (intro exI [of _ "[]"] exI [of _ "c # cs"]) simp
  qed
qed

lemma starLazy_sound:
  "starLazy P s g k = Some r \<Longrightarrow> \<exists>u t. s = u @ t \<and> list_all P u \<and> k (t, g) = Some r"
proof (induction s)
  case Nil
  then show ?case by simp
next
  case (Cons c cs)
  show ?case
  proof (cases "k (c # cs, g)")
    case (Some r')
    with Cons.prems have "k (c # cs, g) = Some r" by simp
    then show ?thesis by (intro exI [of _ "[]"] exI [of _ "c # cs"]) simp
  next
    case None
    with Cons.prems have pc: "P c" and "starLazy P cs g k = Some r" by (auto split: if_splits)
    from Cons.IH [OF this(2)] obtain u t where "cs = u @ t" "list_all P u" "k (t, g) = Some r" by blast
    with pc show ?thesis by (intro exI [of _ "c # u"] exI [of _ t]) simp
  qed
qed

lemma sound_starGreedy: "sound (\<lambda>x k. starGreedy P (fst x) (snd x) k) (eats (list_all P))"
proof (rule soundI)
  fix x k r
  assume "starGreedy P (fst x) (snd x) k = Some r"
  from starGreedy_sound [OF this] obtain u t where "fst x = u @ t" "list_all P u" "k (t, snd x) = Some r" by blast
  then show "\<exists>u y. fst x = u @ fst y \<and> eats (list_all P) u (snd x) (snd y) \<and> k y = Some r"
    by (intro exI [of _ u] exI [of _ "(t, snd x)"]) (simp add: eats_def)
qed

lemma sound_starLazy: "sound (\<lambda>x k. starLazy P (fst x) (snd x) k) (eats (list_all P))"
proof (rule soundI)
  fix x k r
  assume "starLazy P (fst x) (snd x) k = Some r"
  from starLazy_sound [OF this] obtain u t where "fst x = u @ t" "list_all P u" "k (t, snd x) = Some r" by blast
  then show "\<exists>u y. fst x = u @ fst y \<and> eats (list_all P) u (snd x) (snd y) \<and> k y = Some r"
    by (intro exI [of _ u] exI [of _ "(t, snd x)"]) (simp add: eats_def)
qed

lemma sound_plusGreedy: "sound (plusGreedy P) (eats (\<lambda>u. u \<noteq> [] \<and> list_all P u))"
  unfolding plusGreedy_def
  by (rule sound_mono [OF sound_seq [OF sound_charSet sound_starGreedy]]) (auto simp: eats_def)

lemma sound_group1:
  assumes "sound m R"
  shows "sound (group1 m) (\<lambda>u g g'. (\<exists>g0. R u g g0) \<and> g' = Some u)"
proof (rule soundI)
  fix x k r
  assume "group1 m x k = Some r"
  then have "m x (\<lambda>y. k (fst y, Some (take (length (fst x) - length (fst y)) (fst x)))) = Some r"
    by (simp add: group1_def)
  from soundD [OF assms this] obtain u y where
    1: "fst x = u @ fst y" "R u (snd x) (snd y)"
       "k (fst y, Some (take (length (fst x) - length (fst y)) (fst x))) = Some r" by blast
  then show "\<exists>u y. fst x = u @ fst y \<and> ((\<exists>g0. R u (snd x) g0) \<and> snd y = Some u) \<and> k y = Some r"
    by (intro exI [of _ u] exI [of _ "(fst y, Some u)"]) auto
qed

lemma sound_lits: "sound (lits as) (eats (\<lambda>u. map canonicalize u = map canonicalize as))"
proof (induction as)
  case Nil
  show ?case unfolding lits.simps by (rule sound_mono [OF sound_empty]) (auto simp: eats_def)
next
  case (Cons a as)
  show ?case
    unfolding lits.simps
    by (rule sound_mono [OF sound_seq [OF sound_lit Cons.IH]]) (auto simp: eats_def)
qed

text \<open>The markdown image with alternative text \<open>a\<close> and reference \<open>u\<close>.\<close>

definition mdText :: "jsstring \<Rightarrow> jsstring \<Rightarrow> jsstring" where
  "mdText a u = ascii ''!['' @ a @ ascii '']('' @ u @ ascii '')''"

lemma canonicalize_punct:
  "canonicalize c = canonicalize a \<Longrightarrow> a < 0x41 \<or> (0x5A < a \<and> a < 0x61) \<Longrightarrow> c = a"
  unfolding canonicalize_def
  by (auto split: if_splits simp: word_le_nat_alt word_less_nat_alt unat_sub)

lemma lits_bang_bracket:
  "map canonicalize u = map canonicalize (ascii ''!['') \<Longrightarrow> u = ascii ''![''"
  by (auto simp: ascii_def map_eq_Cons_conv dest!: canonicalize_punct)

lemma lits_bracket_paren:
  "map canonicalize u = map canonicalize (ascii '']('') \<Longrightarrow> u = ascii '']('' "
  by (auto simp: ascii_def map_eq_Cons_conv dest!: canonicalize_punct)

lemma lit_close_paren:
  "canonicalize c = canonicalize 0x29 \<Longrightarrow> [c] = ascii '')''"
  by (auto simp: ascii_def dest!: canonicalize_punct)

lemma sound_httpScheme: "sound httpScheme (eats (\<lambda>u. u \<noteq> []))"
  unfolding httpScheme_def
  by (rule sound_mono [OF sound_seq [OF sound_lits sound_seq [OF sound_alt [OF sound_lit sound_empty] sound_lits], unfolded opt_def [symmetric]]])
     (auto simp: eats_def ascii_def)

lemma sound_dataUri: "sound dataUri (eats (\<lambda>u. u \<noteq> []))"
  unfolding dataUri_def
  by (rule sound_mono [OF sound_seq [OF sound_lits sound_seq [OF sound_plusGreedy sound_seq [OF sound_lits sound_plusGreedy]]]])
     (auto simp: eats_def ascii_def)

lemma sound_urlGroup:
  "sound (group1 (alt (seq httpScheme (plusGreedy notSpaceParen)) dataUri))
     (\<lambda>u g g'. u \<noteq> [] \<and> g' = Some u)"
  by (rule sound_mono [OF sound_group1 [OF sound_alt [OF sound_seq [OF sound_httpScheme sound_plusGreedy] sound_dataUri]]])
     (auto simp: eats_def)

lemma sound_markdownImage:
  "sound markdownImage (\<lambda>w g g'. \<exists>a u. w = mdText a u \<and> u \<noteq> [] \<and> g' = Some u)"
  unfolding markdownImage_def
  by (rule sound_mono [OF sound_seq [OF sound_lits sound_seq [OF sound_starLazy sound_seq [OF sound_lits sound_seq [OF sound_urlGroup sound_lit]]]]])
     (auto simp: eats_def mdText_def dest!: lits_bang_bracket lits_bracket_paren lit_close_paren)

lemma sound_imageExtension: "sound imageExtension (eats (\<lambda>u. True))"
  unfolding imageExtension_def
  by (rule sound_mono [OF sound_alt [OF sound_lits sound_alt [OF sound_lits sound_alt [OF sound_lits sound_alt [OF sound_lits sound_lits]]]]])
     (auto simp: eats_def)

lemma sound_bareImage: "sound bareImage (eats (\<lambda>u. u \<noteq> []))"
  unfolding bareImage_def
  by (rule sound_mono [OF sound_alt [OF sound_seq [OF sound_httpScheme sound_seq [OF sound_plusGreedy sound_seq [OF sound_lit sound_imageExtension]]] sound_dataUri]])
     (auto simp: eats_def)

lemma sound_imageUrlRegex:
  "sound imageUrlRegex
     (\<lambda>w g g'. (\<exists>a u. w = mdText a u \<and> u \<noteq> [] \<and> g' = Some u) \<or> (w \<noteq> [] \<and> g' = g))"
  unfolding imageUrlRegex_def
  by (rule sound_mono [OF sound_alt [OF sound_markdownImage sound_bareImage]])
     (auto simp: eats_def)

lemma matchAt_Some:
  assumes "matchAt s = Some (w, g)"
  shows "\<exists>t. s = w @ t" and "w \<noteq> []"
    and "g = None \<or> (\<exists>a u. g = Some u \<and> u \<noteq> [] \<and> w = mdText a u)"
proof -
  from assms obtain y where y: "imageUrlRegex (s, None) Some = Some y"
    and w: "w = take (length s - length (fst y)) s" and g: "g = snd y"
    by (auto simp: matchAt_def split: option.splits)
  from soundD [OF sound_imageUrlRegex y] obtain u y' where
    "fst (s, None :: jsstring option) = u @ fst y'"
    "(\<exists>a v. u = mdText a v \<and> v \<noteq> [] \<and> snd y' = Some v) \<or>
     (u \<noteq> [] \<and> snd y' = snd (s, None :: jsstring option))"
    "Some y' = Some y"
    by blast
  then have u: "s = u @ fst y"
    "(\<exists>a v. u = mdText a v \<and> v \<noteq> [] \<and> snd y = Some v) \<or> (u \<noteq> [] \<and> snd y = None)"
    by simp_all
  from u(1) w have wu: "w = u" by (metis append_eq_conv_conj length_append add_diff_cancel_right')
  with u(1) show "\<exists>t. s = w @ t" by blast
  from u(2) wu show "w \<noteq> []" by (auto simp: mdText_def ascii_def)
  from u(2) wu g show "g = None \<or> (\<exists>a u. g = Some u \<and> u \<noteq> [] \<and> w = mdText a u)" by auto
qed

lemma searchFrom_Some:
  "searchFrom s = Some (n, w, g) \<Longrightarrow>
     w \<noteq> [] \<and> n + length w \<le> length s \<and> take (length w) (drop n s) = w \<and>
     matchAt (drop n s) = Some (w, g)"
proof (induction s arbitrary: n)
  case Nil
  then obtain m where "matchAt [] = Some m" by (auto split: option.splits)
  with matchAt_Some [of "[]" "fst m" "snd m"] show ?case by auto
next
  case (Cons c cs)
  show ?case
  proof (cases "matchAt (c # cs)")
    case (Some m)
    with Cons.prems have n: "n = 0" and m: "m = (w, g)" by (auto split: prod.splits)
    from matchAt_Some [of "c # cs" w g] Some m obtain t where "c # cs = w @ t" "w \<noteq> []" by auto
    with n Some m show ?thesis by (metis add_0 append_eq_conv_conj drop0 le_add1 length_append)
  next
    case None
    with Cons.prems obtain n' where n': "n = Suc n'" "searchFrom cs = Some (n', w, g)"
      by (auto split: option.splits)
    from Cons.IH [OF n'(2)] n'(1) show ?thesis by simp
  qed
qed

section \<open>The loop over \<open>exec\<close>, \<open>replace\<close> and \<open>trim\<close>\<close>

text \<open>
  Lines 152 to 158: what one iteration of the loop pushes on \<open>imageUrls\<close>. A string is
  truthy when it is not empty.
\<close>

definition pushUrl :: "jsstring \<Rightarrow> jsstring option \<Rightarrow> jsstring list" where
  "pushUrl match0 match1 =
     (case match1 of
        Some u \<Rightarrow> if u \<noteq> [] then [u] else if match0 \<noteq> [] then [match0] else []
      | None \<Rightarrow> if match0 \<noteq> [] then [match0] else [])"

text \<open>
  Lines 147 to 159: \<open>while ((match = imageUrlRegex.exec(contentStr)) !== null)\<close>. The
  state of the loop is \<open>lastIndex\<close> of the global pattern: \<open>exec\<close> searches from there,
  fails beyond the end of the string, and leaves \<open>lastIndex\<close> behind the match. The
  result is the final \<open>imageUrls\<close>. The loop ends because no match of this pattern is
  empty (\<open>searchFrom_Some\<close>), which is what the termination proof uses.
\<close>

function execLoop :: "jsstring \<Rightarrow> nat \<Rightarrow> jsstring list" where
  "execLoop contentStr lastIndex =
     (if length contentStr < lastIndex then []
      else case searchFrom (drop lastIndex contentStr) of
             None \<Rightarrow> []
           | Some (n, w, g) \<Rightarrow> pushUrl w g @ execLoop contentStr (lastIndex + n + length w))"
  by pat_completeness auto
termination
proof (relation "measure (\<lambda>(s, i). Suc (length s) - i)")
  show "wf (measure (\<lambda>(s, i). Suc (length s) - i))" by simp
next
  fix contentStr :: jsstring and lastIndex x2 n y w g
  assume "\<not> length contentStr < lastIndex"
    and "searchFrom (drop lastIndex contentStr) = Some x2" and "(n, y) = x2" and "(w, g) = y"
  then have "searchFrom (drop lastIndex contentStr) = Some (n, w, g)" by simp
  from searchFrom_Some [OF this] have "w \<noteq> []" by simp
  with \<open>\<not> length contentStr < lastIndex\<close>
  show "((contentStr, lastIndex + n + length w), (contentStr, lastIndex)) \<in>
        measure (\<lambda>(s, i). Suc (length s) - i)"
    by (cases w) auto
qed

declare execLoop.simps [simp del]

text \<open>
  \<open>contentStr.replace(imageUrlRegex, '')\<close> with a global pattern: first every match is
  collected, the search going on behind each match (one further after an empty one), then
  the text between the matches is put together.
\<close>

function collectMatches :: "jsstring \<Rightarrow> nat \<Rightarrow> (nat \<times> jsstring \<times> jsstring option) list" where
  "collectMatches s lastIndex =
     (if length s < lastIndex then []
      else case searchFrom (drop lastIndex s) of
             None \<Rightarrow> []
           | Some (n, w, g) \<Rightarrow>
               (lastIndex + n, w, g) #
               collectMatches s (if w = [] then lastIndex + n + 1 else lastIndex + n + length w))"
  by pat_completeness auto
termination
  by (relation "measure (\<lambda>(s, i). Suc (length s) - i)") (auto split: if_splits simp: neq_Nil_conv)

declare collectMatches.simps [simp del]

fun buildReplaced :: "jsstring \<Rightarrow> nat \<Rightarrow> (nat \<times> jsstring \<times> jsstring option) list \<Rightarrow> jsstring" where
  "buildReplaced s nextSourcePosition [] = drop nextSourcePosition s"
| "buildReplaced s nextSourcePosition ((position, w, g) # results) =
     (if nextSourcePosition \<le> position
      then take (position - nextSourcePosition) (drop nextSourcePosition s) @
           buildReplaced s (position + length w) results
      else buildReplaced s nextSourcePosition results)"

definition replaceImageUrls :: "jsstring \<Rightarrow> jsstring" where
  "replaceImageUrls s = buildReplaced s 0 (collectMatches s 0)"

definition trim :: "jsstring \<Rightarrow> jsstring" where
  "trim s = rev (dropWhile isSpace (rev (dropWhile isSpace s)))"

section \<open>\<open>editImage\<close>\<close>

text \<open>
  Modelled from the spec: the type \<open>GeneratedContent\<close> of \<open>types.ts\<close>, which the source
  imports: an image reference, a text and a video reference, each of which may be absent
  (\<open>null\<close>, or not set). The field \<open>text\<close> is written \<open>text'\<close> here.
\<close>

record GeneratedContent =
  imageUrl :: "jsstring option"
  text' :: "jsstring option"
  videoUrl :: "jsstring option"

text \<open>
  What \<open>fetch\<close> gives back: a rejection, or a response with its status line and body
  (\<open>None\<close> for a response without a body). The network is a parameter of the model, a
  function from the request to this outcome.
\<close>

record http_response =
  status :: nat
  statusText :: jsstring
  bodyText :: "jsstring option"

datatype fetch_result = FetchRejects thrown | FetchResolves http_response

definition ok :: "http_response \<Rightarrow> bool" where
  "ok r = (200 \<le> status r \<and> status r \<le> 299)"

text \<open>
  Reading the body, as the Fetch standard has it: a body can be consumed once. The flag
  says whether it was read before; reading it again throws a \<open>TypeError\<close>, whatever the
  first read made of the text. A response without a body reads as the empty text.
\<close>

definition consumeBody :: "platform \<Rightarrow> http_response \<Rightarrow> bool \<Rightarrow> (thrown + jsstring) \<times> bool" where
  "consumeBody p r bodyUsed =
     (case bodyText r of
        None \<Rightarrow> (Inr [], bodyUsed)
      | Some b \<Rightarrow> if bodyUsed then (Inl (ErrorObj (bodyUsedMessage p)), bodyUsed) else (Inr b, True))"

definition responseJson :: "platform \<Rightarrow> http_response \<Rightarrow> bool \<Rightarrow> (thrown + json) \<times> bool" where
  "responseJson p r bodyUsed =
     (case consumeBody p r bodyUsed of
        (Inl e, used) \<Rightarrow> (Inl e, used)
      | (Inr b, used) \<Rightarrow>
          (case JSON_parse b of
             None \<Rightarrow> (Inl (ErrorObj (syntaxErrorMessage p b)), used)
           | Some v \<Rightarrow> (Inr v, used)))"

definition responseText :: "platform \<Rightarrow> http_response \<Rightarrow> bool \<Rightarrow> (thrown + jsstring) \<times> bool" where
  "responseText p r bodyUsed = consumeBody p r bodyUsed"

definition requestFailed :: "http_response \<Rightarrow> jsstring \<Rightarrow> jsstring" where
  "requestFailed r detail = requestFailedPrefix @ showNat (status r) @ ascii ''): '' @ detail"

text \<open>
  Lines 116 to 121, the body of the inner \<open>try\<close> after \<open>response.json()\<close>: the message
  to throw, or what the block itself throws. The template literal converts the message
  of the vendor to a string.
\<close>

definition describeWith :: "platform \<Rightarrow> http_response \<Rightarrow> json \<Rightarrow> thrown + jsstring" where
  "describeWith p r m =
     (case toStringJS p m of Inl e \<Rightarrow> Inl e | Inr t \<Rightarrow> Inr (requestFailed r t))"

text \<open>\<open>else if (errorData.message)\<close>, and the message that stands when it is falsy.\<close>

definition describeTopMessage :: "platform \<Rightarrow> http_response \<Rightarrow> json \<Rightarrow> thrown + jsstring" where
  "describeTopMessage p r errorData =
     (case getProp p (Some errorData) (ascii ''message'') of
        Inl e \<Rightarrow> Inl e
      | Inr None \<Rightarrow> Inr (requestFailed r (statusText r))
      | Inr (Some m) \<Rightarrow>
          if truthy p (Some m) then describeWith p r m
          else Inr (requestFailed r (statusText r)))"

definition describeErrorData :: "platform \<Rightarrow> http_response \<Rightarrow> json \<Rightarrow> thrown + jsstring" where
  "describeErrorData p r errorData =
     (case getProp p (Some errorData) (ascii ''error'') of
        Inl e \<Rightarrow> Inl e
      | Inr err \<Rightarrow>
          if \<not> truthy p err then describeTopMessage p r errorData
          else
            (case getProp p err (ascii ''message'') of
               Inl e \<Rightarrow> Inl e
             | Inr None \<Rightarrow> describeTopMessage p r errorData
             | Inr (Some m) \<Rightarrow>
                 if truthy p (Some m) then describeWith p r m
                 else describeTopMessage p r errorData))"

text \<open>
  Lines 113 to 127, for a response that is not \<open>ok\<close>: what is thrown. Whatever the inner
  \<open>try\<close> throws is dropped, and the handler reads the body of the same response again.
\<close>

definition failedResponse :: "platform \<Rightarrow> http_response \<Rightarrow> thrown" where
  "failedResponse p r =
     (case responseJson p r False of
        (parsed, used) \<Rightarrow>
          (case (case parsed of Inl e \<Rightarrow> Inl e | Inr errorData \<Rightarrow> describeErrorData p r errorData) of
             Inr errorMsg \<Rightarrow> ErrorObj errorMsg
           | Inl jsonError \<Rightarrow>
               (case responseText p r used of
                  (Inl e, _) \<Rightarrow> e
                | (Inr t, _) \<Rightarrow> ErrorObj (requestFailed r t))))"

text \<open>
  Lines 143 to 181, for a content that is a string.
\<close>

definition parseContent :: "jsstring \<Rightarrow> thrown + GeneratedContent" where
  "parseContent contentStr =
     (let imageUrls = execLoop contentStr 0;
          generatedImageUrl = (case imageUrls of [] \<Rightarrow> None | u # _ \<Rightarrow> Some u);
          textContent = trim (replaceImageUrls contentStr);
          generatedText = (if textContent \<noteq> [] then Some textContent else None)
      in if generatedImageUrl = None \<or> generatedImageUrl = Some [] then
           Inl (ErrorObj
                  (case generatedText of
                     None \<Rightarrow> noImageMessage
                   | Some t \<Rightarrow> if t \<noteq> [] then modelResponsePrefix @ t @ [0x22] else noImageMessage))
         else Inr \<lparr>imageUrl = generatedImageUrl, text' = generatedText, videoUrl = None\<rparr>)"

text \<open>
  Lines 141 to 181 for any content: \<open>exec\<close> converts its argument to a string, which can
  throw; the loop has no other effect on a content that is not a string, and \<open>replace\<close>
  is then not there to call.
\<close>

definition handleContent :: "platform \<Rightarrow> json \<Rightarrow> thrown + GeneratedContent" where
  "handleContent p contentValue =
     (case toStringJS p contentValue of
        Inl e \<Rightarrow> Inl e
      | Inr s \<Rightarrow>
          (case contentValue of
             JStr contentStr \<Rightarrow> parseContent contentStr
           | JNull \<Rightarrow> Inl (ErrorObj (readNullMessage p (ascii ''replace'')))
           | _ \<Rightarrow> Inl (ErrorObj (notFunctionMessage p))))"

text \<open>Lines 129 to 139, and then the content, for a response that is \<open>ok\<close>.\<close>

definition successResponse :: "platform \<Rightarrow> http_response \<Rightarrow> thrown + GeneratedContent" where
  "successResponse p r =
     (case fst (responseJson p r False) of
        Inl e \<Rightarrow> Inl e
      | Inr result \<Rightarrow>
          (case getProp p (Some result) (ascii ''choices'') of
             Inl e \<Rightarrow> Inl e
           | Inr choices \<Rightarrow>
               if \<not> truthy p choices \<or> lengthIsZero p choices then
                 Inl (ErrorObj noValidDataMessage)
               else
                 (case getProp p (firstElement choices) (ascii ''message'') of
                    Inl e \<Rightarrow> Inl e
                  | Inr message \<Rightarrow>
                      if \<not> truthy p message then Inl (ErrorObj unexpectedFormatMessage)
                      else
                        (case getProp p message (ascii ''content'') of
                           Inl e \<Rightarrow> Inl e
                         | Inr None \<Rightarrow> Inl (ErrorObj unexpectedFormatMessage)
                         | Inr (Some contentValue) \<Rightarrow> handleContent p contentValue))))"

text \<open>Lines 51 to 181: the body of the outer \<open>try\<close>.\<close>

definition editImageTry ::
  "platform \<Rightarrow> environment \<Rightarrow> (http_request \<Rightarrow> fetch_result) \<Rightarrow> jsstring \<Rightarrow> jsstring \<Rightarrow> jsstring \<Rightarrow>
   jsstring option \<Rightarrow> secondary_image option \<Rightarrow> thrown + GeneratedContent" where
  "editImageTry p e fetch base64ImageData mimeType' prompt maskBase64 secondaryImage =
     (case fetch (fetchRequest p e base64ImageData mimeType' prompt maskBase64 secondaryImage) of
        FetchRejects t \<Rightarrow> Inl t
      | FetchResolves response \<Rightarrow>
          if \<not> ok response then Inl (failedResponse p response)
          else successResponse p response)"

text \<open>
  Lines 187 to 198: the message after the speculative \<open>JSON.parse\<close> of the handler. The
  new message is a value, since \<open>parsedError.error.message\<close> can be any truthy one.
  Whatever throws inside is swallowed and leaves the message as it was.
\<close>

definition remapMessage :: "platform \<Rightarrow> jsstring \<Rightarrow> json" where
  "remapMessage p errorMessage =
     (case JSON_parse errorMessage of
        None \<Rightarrow> JStr errorMessage
      | Some parsedError \<Rightarrow>
          (case getProp p (Some parsedError) (ascii ''error'') of
             Inl e \<Rightarrow> JStr errorMessage
           | Inr err \<Rightarrow>
               if \<not> truthy p err then JStr errorMessage
               else
                 (case getProp p err (ascii ''message'') of
                    Inl e \<Rightarrow> JStr errorMessage
                  | Inr None \<Rightarrow> JStr errorMessage
                  | Inr (Some m) \<Rightarrow>
                      if \<not> truthy p (Some m) then JStr errorMessage
                      else
                        (case (getProp p err (ascii ''status''), getProp p err (ascii ''code'')) of
                           (Inr st, Inr code) \<Rightarrow>
                             if st = Some (JStr (ascii ''RESOURCE_EXHAUSTED'')) then
                               JStr rateLimitMessage
                             else if (case code of Some (JNum l) \<Rightarrow> numberIs500 p l | _ \<Rightarrow> False) \<or>
                                     st = Some (JStr (ascii ''UNKNOWN'')) then
                               JStr serverErrorMessage
                             else m
                         | _ \<Rightarrow> JStr errorMessage))))"

text \<open>
  Lines 183 to 202: the handler. \<open>new Error(v)\<close> converts its argument to a string, and
  throws what the conversion throws.
\<close>

definition catchHandler :: "platform \<Rightarrow> thrown \<Rightarrow> thrown" where
  "catchHandler p error =
     (case error of
        ErrorObj errorMessage \<Rightarrow>
          (case toStringJS p (remapMessage p errorMessage) of
             Inl e \<Rightarrow> e
           | Inr m \<Rightarrow> ErrorObj m)
      | NonError \<Rightarrow> ErrorObj unknownCommunicationMessage)"

definition editImage ::
  "platform \<Rightarrow> environment \<Rightarrow> (http_request \<Rightarrow> fetch_result) \<Rightarrow> jsstring \<Rightarrow> jsstring \<Rightarrow> jsstring \<Rightarrow>
   jsstring option \<Rightarrow> secondary_image option \<Rightarrow> thrown + GeneratedContent" where
  "editImage p e fetch base64ImageData mimeType' prompt maskBase64 secondaryImage =
     (case editImageTry p e fetch base64ImageData mimeType' prompt maskBase64 secondaryImage of
        Inl error \<Rightarrow> Inl (catchHandler p error)
      | Inr generatedContent \<Rightarrow> Inr generatedContent)"

section \<open>\<open>generateVideo\<close>\<close>

record input_image =
  data :: jsstring
  imageMimeType :: jsstring

definition videoPrompt :: "jsstring \<Rightarrow> jsstring option \<Rightarrow> jsstring" where
  "videoPrompt prompt aspectRatio =
     ascii ''Create a video-like image sequence for: '' @ prompt @ ascii ''. '' @
     (case aspectRatio of
        None \<Rightarrow> []
      | Some a \<Rightarrow> if a \<noteq> [] then ascii ''Aspect ratio: '' @ a else [])"

text \<open>\<open>image?.data || ''\<close> and \<open>image?.mimeType || 'image/jpeg'\<close>\<close>

definition imageDataOr :: "input_image option \<Rightarrow> jsstring" where
  "imageDataOr img = (case img of None \<Rightarrow> [] | Some i \<Rightarrow> data i)"

definition imageMimeOr :: "input_image option \<Rightarrow> jsstring" where
  "imageMimeOr img =
     (case img of
        None \<Rightarrow> ascii ''image/jpeg''
      | Some i \<Rightarrow> if imageMimeType i \<noteq> [] then imageMimeType i else ascii ''image/jpeg'')"

text \<open>\<open>null + '...'\<close> is the text \<open>null\<close> followed by the other; a string is itself.\<close>

definition concatText :: "jsstring option \<Rightarrow> jsstring \<Rightarrow> jsstring" where
  "concatText t s = (case t of None \<Rightarrow> ascii ''null'' | Some u \<Rightarrow> u) @ s"

text \<open>
  Lines 219 to 256. The progress callback is a sink: the model returns, next to the
  outcome, the values it was called with, in order, when a callback was given. The wait
  of two seconds has no part in the outcome.
\<close>

definition report :: "bool \<Rightarrow> nat \<Rightarrow> nat list" where
  "report onProgress n = (if onProgress then [n] else [])"

definition generateVideo ::
  "platform \<Rightarrow> environment \<Rightarrow> (http_request \<Rightarrow> fetch_result) \<Rightarrow> jsstring \<Rightarrow> input_image option \<Rightarrow>
   jsstring option \<Rightarrow> bool \<Rightarrow> nat list \<times> (thrown + GeneratedContent)" where
  "generateVideo p e fetch prompt img aspectRatio onProgress =
     (let progress1 = report onProgress 10 @ report onProgress 30
      in case editImage p e fetch (imageDataOr img) (imageMimeOr img)
                (videoPrompt prompt aspectRatio) None None of
           Inl error \<Rightarrow>
             (progress1,
              Inl (ErrorObj (videoFailedPrefix @
                             (case error of ErrorObj m \<Rightarrow> m | NonError \<Rightarrow> unknownErrorText))))
         | Inr imageResult \<Rightarrow>
             (progress1 @ report onProgress 70 @ report onProgress 100,
              Inr \<lparr>imageUrl = imageUrl imageResult,
                   text' = Some (concatText (text' imageResult) videoDisclaimer),
                   videoUrl = Some (ascii ''data:video/mp4;base64,'')\<rparr>))"

section \<open>The request: order of the blocks and determinism\<close>

text \<open>
  The instruction text for a masked edit as the specification words it, with the
  instruction between single quotes.
\<close>

definition specMaskedPrompt :: "jsstring \<Rightarrow> jsstring" where
  "specMaskedPrompt prompt =
     ascii ''Apply the following instruction only to the masked area of the image: '' @ [0x27] @
     prompt @ [0x27] @ ascii ''. Preserve the unmasked area.''"

definition maskSupplied :: "jsstring option \<Rightarrow> bool" where
  "maskSupplied maskBase64 = (case maskBase64 of None \<Rightarrow> False | Some m \<Rightarrow> m \<noteq> [])"

definition maskBlocks :: "jsstring option \<Rightarrow> json list" where
  "maskBlocks maskBase64 =
     (case maskBase64 of
        None \<Rightarrow> []
      | Some m \<Rightarrow> if m = [] then [] else [imageBlock (ascii ''data:image/png;base64,'' @ m)])"

definition secondaryBlocks :: "secondary_image option \<Rightarrow> json list" where
  "secondaryBlocks secondaryImage =
     (case secondaryImage of
        None \<Rightarrow> []
      | Some s \<Rightarrow> [imageBlock (dataUrl (mimeType s) (base64 s))])"

lemma contentBlocks_eq:
  "contentBlocks img mime prompt maskBase64 secondaryImage =
     [textBlock (if maskSupplied maskBase64 then maskedPrompt prompt else prompt),
      imageBlock (dataUrl mime img)] @
     maskBlocks maskBase64 @ secondaryBlocks secondaryImage"
  by (simp add: contentBlocks_def maskSupplied_def maskBlocks_def secondaryBlocks_def
      textBlock_def assignText_def ascii_def split: option.splits)

lemma JSON_stringify_blocks:
  "map (JSON_stringify p1) (contentBlocks img mime prompt maskBase64 secondaryImage) =
   map (JSON_stringify p2) (contentBlocks img mime prompt maskBase64 secondaryImage)"
  by (auto simp: contentBlocks_eq maskBlocks_def secondaryBlocks_def imageBlock_def
      textBlock_def split: option.splits)

text \<open>
  C5, as the claim states it: with a mask the text block would be the instruction between
  single quotes. The source writes double quotes, so the request for the instruction
  \<open>add a hat\<close> with mask \<open>BBBB\<close> is not the one the claim describes.
\<close>

theorem C5_single_quote_counterexample:
  "contentBlocks (ascii ''AAAA'') (ascii ''image/jpeg'') (ascii ''add a hat'')
     (Some (ascii ''BBBB'')) None \<noteq>
   [textBlock (specMaskedPrompt (ascii ''add a hat'')),
    imageBlock (dataUrl (ascii ''image/jpeg'') (ascii ''AAAA'')),
    imageBlock (ascii ''data:image/png;base64,BBBB'')]"
  by (simp add: contentBlocks_eq maskSupplied_def maskBlocks_def secondaryBlocks_def
      specMaskedPrompt_def maskedPrompt_def textBlock_def ascii_def)

text \<open>
  C5, amended: the content list of every request body is the text block, the primary
  image block, the mask block (a \<open>data:image/png\<close> URL) when a non-empty mask is
  given, and the secondary image block with its own MIME type when a secondary image is
  given, in this order; with a non-empty mask the text block holds the instruction
  between double quotes inside the fixed sentence, and otherwise the instruction itself.
\<close>

theorem C5_request_content_order:
  "requestBody img mime prompt maskBase64 secondaryImage =
     JObj [(ascii ''model'', JStr (ascii ''gemini-2.5-flash-image-preview'')),
           (ascii ''stream'', JBool False),
           (ascii ''messages'',
              JArr [JObj [(ascii ''role'', JStr (ascii ''user'')),
                          (ascii ''content'',
                             JArr ([textBlock (if maskSupplied maskBase64 then maskedPrompt prompt
                                               else prompt),
                                    imageBlock (dataUrl mime img)] @
                                   maskBlocks maskBase64 @
                                   secondaryBlocks secondaryImage))]])]"
  by (simp only: requestBody_def contentBlocks_eq)

text \<open>
  C9: the serialized body handed to \<open>fetch\<close> is a function of the five arguments of
  \<open>editImage\<close> alone. Two calls with the same arguments send the same text, whatever the
  runtime and the configured key and endpoint of each call are.
\<close>

theorem C9_request_body_deterministic:
  "body (fetchRequest p1 e1 img mime prompt maskBase64 secondaryImage) =
   body (fetchRequest p2 e2 img mime prompt maskBase64 secondaryImage)"
  by (simp add: fetchRequest_def requestBody_def
      JSON_stringify_blocks [of p1 img mime prompt maskBase64 secondaryImage p2])

section \<open>The matches of the loop and of \<open>replace\<close>\<close>

text \<open>
  The loop and \<open>replace\<close> walk over the same matches: the loop pushes the reference of
  each (capture group 1 when it took part, the whole match otherwise), and \<open>replace\<close>
  keeps the segments between them.
\<close>

lemma pushUrl_match:
  "matchAt t = Some (w, g) \<Longrightarrow> pushUrl w g = [case g of None \<Rightarrow> w | Some u \<Rightarrow> u]"
  using matchAt_Some [of t w g] by (auto simp: pushUrl_def)

lemma execLoop_collectMatches:
  "execLoop s i = map (\<lambda>(position, w, g). case g of None \<Rightarrow> w | Some u \<Rightarrow> u) (collectMatches s i)"
proof (induction s i rule: execLoop.induct)
  case (1 s i)
  show ?case
  proof (cases "length s < i")
    case True
    then show ?thesis by (simp add: execLoop.simps [of s i] collectMatches.simps [of s i])
  next
    case False
    show ?thesis
    proof (cases "searchFrom (drop i s)")
      case None
      with False show ?thesis by (simp add: execLoop.simps [of s i] collectMatches.simps [of s i])
    next
      case (Some m)
      obtain n w g where m: "m = (n, w, g)" by (cases m) auto
      from searchFrom_Some [of "drop i s" n w g] Some m
      have w: "w \<noteq> []" and ma: "matchAt (drop n (drop i s)) = Some (w, g)" by auto
      from "1.IH" [OF False Some m [symmetric] refl]
      have "execLoop s (i + n + length w) =
            map (\<lambda>(position, w, g). case g of None \<Rightarrow> w | Some u \<Rightarrow> u) (collectMatches s (i + n + length w))" .
      with False Some m w pushUrl_match [OF ma] show ?thesis
        by (simp add: execLoop.simps [of s i] collectMatches.simps [of s i])
    qed
  qed
qed

text \<open>Plain segments and matched texts in turn, starting with a segment.\<close>

fun interleave :: "jsstring list \<Rightarrow> jsstring list \<Rightarrow> jsstring" where
  "interleave [] ws = concat ws"
| "interleave (t # ts) [] = concat (t # ts)"
| "interleave (t # ts) (w # ws) = t @ w @ interleave ts ws"

lemma buildReplaced_segments:
  "i \<le> length s \<Longrightarrow>
   \<exists>ts. length ts = Suc (length (collectMatches s i)) \<and>
        drop i s = interleave ts (map (\<lambda>(position, w, g). w) (collectMatches s i)) \<and>
        buildReplaced s i (collectMatches s i) = concat ts"
proof (induction s i rule: collectMatches.induct)
  case (1 s i)
  show ?case
  proof (cases "searchFrom (drop i s)")
    case None
    with "1.prems" have "collectMatches s i = []" by (simp add: collectMatches.simps [of s i])
    then show ?thesis by (intro exI [of _ "[drop i s]"]) simp
  next
    case (Some m)
    obtain n w g where m: "m = (n, w, g)" by (cases m) auto
    from searchFrom_Some [of "drop i s" n w g] Some m
    have w: "w \<noteq> []" and le: "n + length w \<le> length (drop i s)"
      and tk: "take (length w) (drop n (drop i s)) = w" by auto
    let ?j = "i + n + length w"
    from le "1.prems" have j: "?j \<le> length s" by simp
    from "1.prems" have ni: "\<not> length s < i" by simp
    from "1.IH" [OF ni Some m [symmetric] refl] w j obtain ts where ts:
      "length ts = Suc (length (collectMatches s ?j))"
      "drop ?j s = interleave ts (map (\<lambda>(position, w, g). w) (collectMatches s ?j))"
      "buildReplaced s ?j (collectMatches s ?j) = concat ts"
      by auto
    from ni Some m w have cm: "collectMatches s i = (i + n, w, g) # collectMatches s ?j"
      by (simp add: collectMatches.simps [of s i])
    have split: "drop i s = take n (drop i s) @ w @ drop ?j s"
    proof -
      have "drop i s = take n (drop i s) @ drop n (drop i s)" by (simp only: append_take_drop_id)
      also have "drop n (drop i s) = take (length w) (drop n (drop i s)) @ drop (length w) (drop n (drop i s))"
        by (simp only: append_take_drop_id)
      also have "take (length w) (drop n (drop i s)) = w" by (rule tk)
      also have "drop (length w) (drop n (drop i s)) = drop ?j s" by (simp add: add.commute add.left_commute)
      finally show ?thesis .
    qed
    show ?thesis
      using ts cm split
      by (intro exI [of _ "take n (drop i s) # ts"]) (simp add: add.assoc)
  qed
qed

lemma replaceImageUrls_segments:
  "\<exists>ts. length ts = Suc (length (collectMatches s 0)) \<and>
        s = interleave ts (map (\<lambda>(position, w, g). w) (collectMatches s 0)) \<and>
        replaceImageUrls s = concat ts"
  using buildReplaced_segments [of 0 s] by (simp add: replaceImageUrls_def)

section \<open>Errors through the handler\<close>

lemma JSON_parse_bad_start:
  assumes "\<not> isJsonWhitespace c" and "\<not> isDigit c"
    and "c \<noteq> 0x7B" "c \<noteq> 0x5B" "c \<noteq> 0x22" "c \<noteq> 0x2D" "c \<noteq> 0x74" "c \<noteq> 0x66" "c \<noteq> 0x6E"
  shows "JSON_parse (c # cs) = None"
  using assms by (simp add: JSON_parse_def skipWhitespace_def)

lemma remapMessage_bad_start:
  assumes "JSON_parse m = None"
  shows "catchHandler p (ErrorObj m) = ErrorObj m"
  using assms by (simp add: catchHandler_def remapMessage_def)

lemma JSON_parse_requestFailed: "JSON_parse (requestFailed r t) = None"
  unfolding requestFailed_def requestFailedPrefix_def
  by (simp add: ascii_def JSON_parse_bad_start isJsonWhitespace_def isDigit_def)




lemma JSON_parse_modelResponse: "JSON_parse (modelResponsePrefix @ t) = None"
  unfolding modelResponsePrefix_def
  by (simp add: JSON_parse_bad_start isJsonWhitespace_def isDigit_def)

lemma toStringJS_throws:
  "toStringJS p v = Inl t \<Longrightarrow> t = ErrorObj (toPrimitiveMessage p)"
  "joinElements p vs = Inl t \<Longrightarrow> t = ErrorObj (toPrimitiveMessage p)"
  by (induction p v and p vs rule: toStringJS_joinElements.induct)
     (auto split: if_splits sum.splits)

lemma catchHandler_ErrorObj: "\<exists>m. catchHandler p t = ErrorObj m"
  by (cases t) (auto simp: catchHandler_def split: sum.splits dest: toStringJS_throws(1))

lemma editImage_rejects_with_Error:
  "editImage p e fetch img mime prompt maskBase64 secondaryImage = Inl t \<Longrightarrow> \<exists>m. t = ErrorObj m"
  using catchHandler_ErrorObj by (auto simp: editImage_def split: sum.splits)

section \<open>Responses that are not \<open>ok\<close>\<close>

text \<open>
  Example responses: a network that answers every request with the given status, status
  text and body; the body of a vendor error for an exhausted quota; and the message of
  the \<open>TypeError\<close> that Chrome throws when a consumed body is read again.
\<close>

definition quotaBody :: jsstring where
  \<open>quotaBody = ascii ''{"error":{"message":"Quota exceeded","status":"RESOURCE_EXHAUSTED"}}''\<close>

definition chromeBodyUsed :: jsstring where
  "chromeBodyUsed = ascii ''Failed to execute 'text' on 'Response': body stream already read''"

definition respond :: "nat \<Rightarrow> jsstring \<Rightarrow> jsstring \<Rightarrow> http_request \<Rightarrow> fetch_result" where
  "respond st line b request = FetchResolves \<lparr>status = st, statusText = line, bodyText = Some b\<rparr>"

lemma JSON_parse_quotaBody:
  "JSON_parse quotaBody =
     Some (JObj [(ascii ''error'',
                  JObj [(ascii ''message'', JStr (ascii ''Quota exceeded'')),
                        (ascii ''status'', JStr (ascii ''RESOURCE_EXHAUSTED''))])])"
  by code_simp

lemma failedResponse_resource_exhausted:
  assumes "bodyText r = Some b"
    and "JSON_parse b =
           Some (JObj [(ascii ''error'',
                        JObj [(ascii ''message'', JStr X),
                              (ascii ''status'', JStr (ascii ''RESOURCE_EXHAUSTED''))])])"
  shows "failedResponse p r = ErrorObj (requestFailed r (if X = [] then statusText r else X))"
  using assms
  by (simp add: failedResponse_def responseJson_def consumeBody_def describeErrorData_def
      describeTopMessage_def describeWith_def getProp_def truthy_def ascii_def)

lemma failedResponse_not_json:
  assumes "bodyText r = Some b" and "JSON_parse b = None"
  shows "failedResponse p r = ErrorObj (bodyUsedMessage p)"
  using assms
  by (simp add: failedResponse_def responseJson_def responseText_def consumeBody_def)

lemma editImage_failed:
  assumes "fetch (fetchRequest p e img mime prompt maskBase64 secondaryImage) = FetchResolves r"
    and "\<not> ok r"
  shows "editImage p e fetch img mime prompt maskBase64 secondaryImage =
         Inl (catchHandler p (failedResponse p r))"
  using assms by (simp add: editImage_def editImageTry_def)

lemma showNat_429: "showNat 429 = ascii ''429''"
  by (simp add: showNat.simps [of 429] showNat.simps [of 42] showNat.simps [of 4] digitChar_def ascii_def)

text \<open>
  C1, at a failing input. The response has status 429 and the body
  \<open>{"error":{"message":"Quota exceeded","status":"RESOURCE_EXHAUSTED"}}\<close>. The inner
  block throws the prefixed text \<open>LaoZhang API ... (429): Quota exceeded\<close>; the handler's
  \<open>JSON.parse\<close> of that text fails, so the branch for \<open>RESOURCE_EXHAUSTED\<close> is not
  reached and the call rejects with the prefixed text, which holds the vendor's message
  and is not the rate-limit message.
\<close>

theorem C1_rate_limit_not_reached:
  "editImage p e (respond 429 (ascii ''Too Many Requests'') quotaBody) img mime prompt
     maskBase64 secondaryImage =
     Inl (ErrorObj (requestFailedPrefix @ ascii ''429): Quota exceeded'')) \<and>
   requestFailedPrefix @ ascii ''429): Quota exceeded'' \<noteq> rateLimitMessage"
proof -
  let ?r = "\<lparr>status = 429, statusText = ascii ''Too Many Requests'', bodyText = Some quotaBody\<rparr>"
  have "failedResponse p ?r = ErrorObj (requestFailed ?r (ascii ''Quota exceeded''))"
    using failedResponse_resource_exhausted [of ?r quotaBody "ascii ''Quota exceeded''" p]
    by (simp add: JSON_parse_quotaBody ascii_def)
  moreover have "\<not> ok ?r" by (simp add: ok_def)
  ultimately have "editImage p e (respond 429 (ascii ''Too Many Requests'') quotaBody) img mime prompt
     maskBase64 secondaryImage = Inl (ErrorObj (requestFailed ?r (ascii ''Quota exceeded'')))"
    using editImage_failed [of "respond 429 (ascii ''Too Many Requests'') quotaBody" p e img mime prompt maskBase64 secondaryImage ?r]
    by (simp add: respond_def remapMessage_bad_start JSON_parse_requestFailed)
  moreover have "requestFailed ?r (ascii ''Quota exceeded'') = requestFailedPrefix @ ascii ''429): Quota exceeded''"
    by (simp add: requestFailed_def showNat_429 ascii_def)
  moreover have "requestFailedPrefix @ ascii ''429): Quota exceeded'' \<noteq> rateLimitMessage"
    by (simp add: requestFailedPrefix_def rateLimitMessage_def ascii_def)
  ultimately show ?thesis by simp
qed

text \<open>Whether a text occurs somewhere in another.\<close>

fun containsText :: "jsstring \<Rightarrow> jsstring \<Rightarrow> bool" where
  "containsText t [] = (t = [])"
| "containsText t (c # cs) = (take (length t) (c # cs) = t \<or> containsText t cs)"

lemma chromeBodyUsed_without_body:
  "\<not> containsText (ascii ''upstream connect error'') chromeBodyUsed"
  by code_simp

lemma JSON_parse_chromeBodyUsed: "JSON_parse chromeBodyUsed = None"
  unfolding chromeBodyUsed_def
  by (simp add: ascii_def JSON_parse_bad_start isJsonWhitespace_def isDigit_def)

lemma JSON_parse_upstream: "JSON_parse (ascii ''upstream connect error'') = None"
  by (simp add: ascii_def JSON_parse_bad_start isJsonWhitespace_def isDigit_def)

text \<open>
  C3, at a failing input. The response has status 502 and the body
  \<open>upstream connect error\<close>, which is not JSON. \<open>response.json()\<close> consumes the body and
  throws; the handler's \<open>response.text()\<close> then throws the runtime's \<open>TypeError\<close> for a
  body that was already read (here with the message Chrome gives it), and that is what
  the call rejects with: the text of the body is not in the message.
\<close>

theorem C3_raw_body_lost:
  "editImage (p\<lparr>bodyUsedMessage := chromeBodyUsed\<rparr>) e
     (respond 502 (ascii ''Bad Gateway'') (ascii ''upstream connect error'')) img mime prompt
     maskBase64 secondaryImage =
     Inl (ErrorObj chromeBodyUsed) \<and>
   \<not> containsText (ascii ''upstream connect error'') chromeBodyUsed"
proof -
  let ?r = "\<lparr>status = 502, statusText = ascii ''Bad Gateway'',
             bodyText = Some (ascii ''upstream connect error'')\<rparr>"
  let ?p = "p\<lparr>bodyUsedMessage := chromeBodyUsed\<rparr>"
  have "failedResponse ?p ?r = ErrorObj chromeBodyUsed"
    using failedResponse_not_json [of ?r "ascii ''upstream connect error''" ?p]
    by (simp add: JSON_parse_upstream)
  moreover have "\<not> ok ?r" by (simp add: ok_def)
  ultimately show ?thesis
    using editImage_failed [of "respond 502 (ascii ''Bad Gateway'') (ascii ''upstream connect error'')"
        ?p e img mime prompt maskBase64 secondaryImage ?r]
    by (simp add: respond_def remapMessage_bad_start JSON_parse_chromeBodyUsed
        chromeBodyUsed_without_body)
qed

section \<open>The content of a successful response\<close>

text \<open>
  The response as the specification describes it,
  \<open>{ choices: [ { message: { content } } ] }\<close>: the choices of a parsed body, the content
  of a choice's message, the content of the first choice, and that content for the answer
  of \<open>fetch\<close> when the answer is an \<open>ok\<close> response with a body that parses.
\<close>

definition responseChoices :: "json \<Rightarrow> json option" where
  "responseChoices result = (case result of JObj kvs \<Rightarrow> map_of kvs (ascii ''choices'') | _ \<Rightarrow> None)"

definition messageContent :: "json \<Rightarrow> json option" where
  "messageContent choice =
     (case choice of
        JObj kvs \<Rightarrow>
          (case map_of kvs (ascii ''message'') of
             Some (JObj message) \<Rightarrow> map_of message (ascii ''content'')
           | _ \<Rightarrow> None)
      | _ \<Rightarrow> None)"

definition responseContent :: "json \<Rightarrow> json option" where
  "responseContent result =
     (case responseChoices result of
        Some (JArr (choice # others)) \<Rightarrow> messageContent choice
      | _ \<Rightarrow> None)"

definition successContent :: "fetch_result \<Rightarrow> json option" where
  "successContent answer =
     (case answer of
        FetchRejects t \<Rightarrow> None
      | FetchResolves r \<Rightarrow>
          if ok r then
            (case bodyText r of
               None \<Rightarrow> None
             | Some b \<Rightarrow> (case JSON_parse b of None \<Rightarrow> None | Some result \<Rightarrow> responseContent result))
          else None)"

text \<open>A text that is reported as absent when it is empty.\<close>

definition nonEmptyText :: "jsstring \<Rightarrow> jsstring option" where
  "nonEmptyText t = (if t = [] then None else Some t)"

lemma successResponse_content:
  assumes "bodyText r = Some b" and "JSON_parse b = Some result"
    and "responseContent result = Some v"
  shows "successResponse p r = handleContent p v"
proof -
  from assms(3) obtain kvs choice others message where
    "result = JObj kvs" "map_of kvs (ascii ''choices'') = Some (JArr (JObj choice # others))"
    "map_of choice (ascii ''message'') = Some (JObj message)"
    "map_of message (ascii ''content'') = Some v"
    by (auto simp: responseContent_def responseChoices_def messageContent_def
        split: json.splits option.splits list.splits)
  with assms(1,2) show ?thesis
    by (simp add: successResponse_def responseJson_def consumeBody_def getProp_def truthy_def
        lengthIsZero_def firstElement_def)
qed

lemma editImage_content:
  assumes "successContent (fetch (fetchRequest p e img mime prompt maskBase64 secondaryImage)) = Some (JStr c)"
  shows "editImage p e fetch img mime prompt maskBase64 secondaryImage =
         (case parseContent c of Inl t \<Rightarrow> Inl (catchHandler p t) | Inr g \<Rightarrow> Inr g)"
proof -
  from assms obtain r b result where
    r: "fetch (fetchRequest p e img mime prompt maskBase64 secondaryImage) = FetchResolves r" "ok r"
    and b: "bodyText r = Some b" "JSON_parse b = Some result" "responseContent result = Some (JStr c)"
    by (auto simp: successContent_def split: fetch_result.splits if_splits option.splits)
  from successResponse_content [OF b] have "successResponse p r = parseContent c"
    by (simp add: handleContent_def)
  with r show ?thesis by (simp add: editImage_def editImageTry_def)
qed

lemma parseContent_eq:
  "parseContent c =
     (case collectMatches c 0 of
        [] \<Rightarrow> Inl (ErrorObj (case nonEmptyText (trim (replaceImageUrls c)) of
                              None \<Rightarrow> noImageMessage
                            | Some t \<Rightarrow> modelResponsePrefix @ t @ [0x22]))
      | (position, w, g) # ms \<Rightarrow>
          Inr \<lparr>imageUrl = Some (case g of None \<Rightarrow> w | Some u \<Rightarrow> u),
               text' = nonEmptyText (trim (replaceImageUrls c)), videoUrl = None\<rparr>)"
proof (cases "collectMatches c 0")
  case Nil
  then show ?thesis
    by (simp add: parseContent_def execLoop_collectMatches nonEmptyText_def Let_def)
next
  case (Cons m ms)
  obtain position w g where m: "m = (position, w, g)" by (cases m) auto
  from Cons m have "searchFrom (drop 0 c) = Some (position, w, g)"
    by (auto simp: collectMatches.simps [of c 0] split: option.splits if_splits)
  from searchFrom_Some [OF this] have ma: "matchAt (drop position (drop 0 c)) = Some (w, g)" by simp
  from matchAt_Some [OF ma] have "(case g of None \<Rightarrow> w | Some u \<Rightarrow> u) \<noteq> []"
    by (auto split: option.splits)
  with Cons m show ?thesis
    by (simp add: parseContent_def execLoop_collectMatches nonEmptyText_def Let_def)
qed

text \<open>A response whose content is a refusal without any image.\<close>

definition sorryBody :: jsstring where
  \<open>sorryBody = ascii ''{"choices":[{"message":{"content":"Sorry"}}]}''\<close>

lemma successContent_sorry:
  "successContent (respond 200 (ascii ''OK'') sorryBody request) = Some (JStr (ascii ''Sorry''))"
  by code_simp

lemma execLoop_sorry: "execLoop (ascii ''Sorry'') 0 = []"
  by code_simp

lemma residual_sorry: "trim (replaceImageUrls (ascii ''Sorry'')) = ascii ''Sorry''"
  by code_simp

lemma collectMatches_none:
  assumes "execLoop c 0 = []"
  shows "collectMatches c 0 = []"
  using assms by (simp add: execLoop_collectMatches)

lemma replaceImageUrls_none: "execLoop c 0 = [] \<Longrightarrow> replaceImageUrls c = c"
  by (simp add: replaceImageUrls_def collectMatches_none)

text \<open>
  C2, amended: when the content of a successful response is a string in which the loop
  finds no image reference, and the text left after \<open>replace\<close> and \<open>trim\<close> is not empty,
  the call rejects with a message made of the source's prefix (its four Chinese
  characters, a colon, a space and a double quote), that text, and a closing double
  quote. Nothing was removed from the content, so the text is the trimmed content.
\<close>

theorem C2_model_text_wrapped:
  assumes "successContent (fetch (fetchRequest p e img mime prompt maskBase64 secondaryImage)) =
           Some (JStr c)"
    and "execLoop c 0 = []"
    and "trim (replaceImageUrls c) \<noteq> []"
  shows "editImage p e fetch img mime prompt maskBase64 secondaryImage =
           Inl (ErrorObj (modelResponsePrefix @ trim (replaceImageUrls c) @ [0x22])) \<and>
         replaceImageUrls c = c"
  using assms
  by (simp add: editImage_content parseContent_eq collectMatches_none nonEmptyText_def
      remapMessage_bad_start JSON_parse_modelResponse replaceImageUrls_none)

lemma residual_sorry_nonempty: "trim (replaceImageUrls (ascii ''Sorry'')) \<noteq> []"
  by (simp add: residual_sorry) (simp add: ascii_def)

text \<open>C2, amended, at the content \<open>Sorry\<close>.\<close>

theorem C2_model_text_wrapped_witness:
  "\<forall>p e img mime prompt maskBase64 secondaryImage.
     editImage p e (respond 200 (ascii ''OK'') sorryBody) img mime prompt maskBase64 secondaryImage =
       Inl (ErrorObj (modelResponsePrefix @ ascii ''Sorry'' @ [0x22]))"
proof (intro allI)
  fix p e img mime prompt maskBase64 secondaryImage
  from C2_model_text_wrapped [of "respond 200 (ascii ''OK'') sorryBody" p e img mime prompt
      maskBase64 secondaryImage "ascii ''Sorry''", OF successContent_sorry execLoop_sorry
      residual_sorry_nonempty]
  show "editImage p e (respond 200 (ascii ''OK'') sorryBody) img mime prompt maskBase64
          secondaryImage = Inl (ErrorObj (modelResponsePrefix @ ascii ''Sorry'' @ [0x22]))"
    by (simp add: residual_sorry)
qed

lemma ascii_sorry_nonempty: "ascii ''Sorry'' \<noteq> []"
  by (simp add: ascii_def)

lemma editImage_sorry:
  "editImage p e (respond 200 (ascii ''OK'') sorryBody) img mime prompt maskBase64 secondaryImage =
     Inl (ErrorObj (modelResponsePrefix @ ascii ''Sorry'' @ [0x22]))"
  by (simp add: editImage_content [of "respond 200 (ascii ''OK'') sorryBody" p e img mime prompt
        maskBase64 secondaryImage "ascii ''Sorry''", OF successContent_sorry]
      parseContent_eq collectMatches_none [OF execLoop_sorry] residual_sorry nonEmptyText_def
      remapMessage_bad_start JSON_parse_modelResponse ascii_sorry_nonempty)

text \<open>
  C2, as the claim states it: for the content \<open>Sorry\<close> no image reference is found and
  the residual text is \<open>Sorry\<close>, but the call does not reject with the message \<open>Sorry\<close>.
\<close>

theorem C2_verbatim_counterexample:
  "execLoop (ascii ''Sorry'') 0 = [] \<and>
   trim (replaceImageUrls (ascii ''Sorry'')) = ascii ''Sorry'' \<and>
   (\<forall>p e img mime prompt maskBase64 secondaryImage.
      editImage p e (respond 200 (ascii ''OK'') sorryBody) img mime prompt maskBase64
        secondaryImage \<noteq> Inl (ErrorObj (ascii ''Sorry'')))"
proof -
  have "modelResponsePrefix @ ascii ''Sorry'' @ [0x22] \<noteq> ascii ''Sorry''"
    by (simp add: modelResponsePrefix_def ascii_def)
  then show ?thesis
    by (simp add: execLoop_sorry residual_sorry editImage_sorry)
qed

section \<open>References and residual text\<close>

text \<open>
  Of a match of the pattern: the text it covers, and the reference that the loop takes
  from it. A matched text is the syntax of a reference when it is the bare reference or a
  markdown image around it.
\<close>

definition matchedText :: "nat \<times> jsstring \<times> jsstring option \<Rightarrow> jsstring" where
  "matchedText m = fst (snd m)"

definition referenceOf :: "nat \<times> jsstring \<times> jsstring option \<Rightarrow> jsstring" where
  "referenceOf m = (case snd (snd m) of None \<Rightarrow> fst (snd m) | Some u \<Rightarrow> u)"

definition isSyntaxOf :: "jsstring \<Rightarrow> jsstring \<Rightarrow> bool" where
  "isSyntaxOf w u = (w = u \<or> (\<exists>a. w = mdText a u))"

lemma referenceOf_eq: "(\<lambda>(position, w, g). case g of None \<Rightarrow> w | Some u \<Rightarrow> u) = referenceOf"
  by (auto simp: fun_eq_iff referenceOf_def split: option.splits)

lemma matchedText_eq: "(\<lambda>(position, w, g). w) = matchedText"
  by (auto simp: fun_eq_iff matchedText_def)

lemma collectMatches_matchAt:
  "m \<in> set (collectMatches s i) \<Longrightarrow> \<exists>t. matchAt t = Some (snd m)"
proof (induction s i rule: collectMatches.induct)
  case (1 s i)
  show ?case
  proof (cases "length s < i \<or> searchFrom (drop i s) = None")
    case True
    with "1.prems" show ?thesis by (auto simp: collectMatches.simps [of s i] split: if_splits)
  next
    case False
    then obtain n w g where sf: "searchFrom (drop i s) = Some (n, w, g)" and ni: "\<not> length s < i"
      by auto
    from searchFrom_Some [OF sf] have ma: "matchAt (drop n (drop i s)) = Some (w, g)" by simp
    from sf ni "1.prems" have
      "m = (i + n, w, g) \<or>
       m \<in> set (collectMatches s (if w = [] then i + n + 1 else i + n + length w))"
      by (simp add: collectMatches.simps [of s i])
    then show ?thesis
    proof
      assume "m = (i + n, w, g)"
      with ma show ?thesis by auto
    next
      assume "m \<in> set (collectMatches s (if w = [] then i + n + 1 else i + n + length w))"
      from "1.IH" [OF ni sf refl refl this] show ?thesis .
    qed
  qed
qed

lemma collectMatches_syntax:
  "list_all2 isSyntaxOf (map matchedText (collectMatches s i)) (map referenceOf (collectMatches s i))"
proof -
  have "isSyntaxOf (matchedText m) (referenceOf m)" if "m \<in> set (collectMatches s i)" for m
  proof -
    obtain position w g where m: "m = (position, w, g)" by (cases m) auto
    from collectMatches_matchAt [OF that] m obtain t where "matchAt t = Some (w, g)" by auto
    from matchAt_Some(3) [OF this] m show ?thesis
      by (auto simp: isSyntaxOf_def matchedText_def referenceOf_def)
  qed
  then show ?thesis by (simp add: list_all2_conv_all_nth)
qed

text \<open>
  C4: when the loop over a successful response's content finds two or more references,
  the content is an interleaving of plain segments \<open>ts\<close> and matched texts \<open>ws\<close>, one
  matched text for each reference found (the reference itself, or the markdown image that
  holds it), in the order of the scan; the result's image reference is the first reference
  alone, and the result's text is the trimmed concatenation of the plain segments, every
  matched text being left out (absent when that is empty).
\<close>

theorem C4_first_reference_only:
  assumes "successContent (fetch (fetchRequest p e img mime prompt maskBase64 secondaryImage)) =
           Some (JStr c)"
    and "execLoop c 0 = u1 # u2 # us"
  shows "\<exists>ts ws. list_all2 isSyntaxOf ws (u1 # u2 # us) \<and> length ts = Suc (length ws) \<and>
           c = interleave ts ws \<and>
           editImage p e fetch img mime prompt maskBase64 secondaryImage =
             Inr \<lparr>imageUrl = Some u1, text' = nonEmptyText (trim (concat ts)), videoUrl = None\<rparr>"
proof -
  let ?ms = "collectMatches c 0"
  from assms(2) have us: "map referenceOf ?ms = u1 # u2 # us"
    by (simp add: execLoop_collectMatches referenceOf_eq)
  then obtain m ms where ms: "?ms = m # ms" and m: "referenceOf m = u1" by auto
  from replaceImageUrls_segments [of c] obtain ts where
    "length ts = Suc (length ?ms) \<and>
     c = interleave ts (map (\<lambda>(position, w, g). w) ?ms) \<and>
     replaceImageUrls c = concat ts"
    by blast
  then have ts:
    "length ts = Suc (length ?ms)" "c = interleave ts (map matchedText ?ms)"
    "replaceImageUrls c = concat ts"
    by (simp_all add: matchedText_eq)
  have "editImage p e fetch img mime prompt maskBase64 secondaryImage =
          Inr \<lparr>imageUrl = Some u1, text' = nonEmptyText (trim (concat ts)), videoUrl = None\<rparr>"
    using ms m ts(3)
    by (cases m)
       (simp add: editImage_content [of fetch p e img mime prompt maskBase64 secondaryImage c, OF assms(1)]
          parseContent_eq referenceOf_def split: option.splits)
  moreover from collectMatches_syntax [of c 0] us
  have "list_all2 isSyntaxOf (map matchedText ?ms) (u1 # u2 # us)" by simp
  ultimately show ?thesis using ts(1,2)
    by (intro exI [of _ ts] exI [of _ "map matchedText ?ms"]) simp
qed

text \<open>
  C6: when the pattern matches a successful response's content exactly once, and that
  match is of the markdown alternative with the reference \<open>u\<close> in capture group 1, then
  the content is \<open>pre @ ![a](u) @ post\<close>, the result's image reference is \<open>u\<close>, and the
  result's text is \<open>pre @ post\<close> trimmed, absent when that is empty.
\<close>

theorem C6_single_markdown_reference:
  assumes "successContent (fetch (fetchRequest p e img mime prompt maskBase64 secondaryImage)) =
           Some (JStr c)"
    and "collectMatches c 0 = [(position, w, Some u)]"
  shows "\<exists>pre a post. c = pre @ mdText a u @ post \<and>
           editImage p e fetch img mime prompt maskBase64 secondaryImage =
             Inr \<lparr>imageUrl = Some u, text' = nonEmptyText (trim (pre @ post)), videoUrl = None\<rparr>"
proof -
  from replaceImageUrls_segments [of c] obtain ts where
    "length ts = Suc (length (collectMatches c 0)) \<and>
     c = interleave ts (map (\<lambda>(position, w, g). w) (collectMatches c 0)) \<and>
     replaceImageUrls c = concat ts"
    by blast
  then have ts0: "length ts = Suc (length (collectMatches c 0))"
    and ts1: "c = interleave ts (map (\<lambda>(position, w, g). w) (collectMatches c 0))"
    and ts2: "replaceImageUrls c = concat ts"
    by blast+
  from ts0 have "length ts = 2" by (simp add: assms(2))
  moreover from ts1 have "c = interleave ts [w]" by (simp add: assms(2))
  ultimately have ts: "length ts = 2" "c = interleave ts [w]" "replaceImageUrls c = concat ts"
    using ts2 by blast+
  from ts(1) obtain pre post where pp: "ts = [pre, post]"
    by (cases ts; cases "tl ts"; cases "tl (tl ts)") auto
  have "(position, w, Some u) \<in> set (collectMatches c 0)" using assms(2) by simp
  from collectMatches_matchAt [OF this] obtain t where "matchAt t = Some (w, Some u)" by auto
  from matchAt_Some(3) [OF this] obtain a where a: "w = mdText a u" by auto
  have "editImage p e fetch img mime prompt maskBase64 secondaryImage =
          Inr \<lparr>imageUrl = Some u, text' = nonEmptyText (trim (pre @ post)), videoUrl = None\<rparr>"
    using assms(2) ts(3) pp by (simp add: editImage_content [of fetch p e img mime prompt maskBase64 secondaryImage c, OF assms(1)] parseContent_eq)
  with ts(2) pp a show ?thesis by (intro exI [of _ pre] exI [of _ a] exI [of _ post]) simp
qed

definition twoImagesBody :: jsstring where
  \<open>twoImagesBody = ascii ''{"choices":[{"message":{"content":"A ![x](http://a/b.png) B http://c/d.gif"}}]}''\<close>

definition twoImagesContent :: jsstring where
  "twoImagesContent = ascii ''A ![x](http://a/b.png) B http://c/d.gif''"

lemma successContent_twoImages:
  "successContent (respond 200 (ascii ''OK'') twoImagesBody request) = Some (JStr twoImagesContent)"
  by code_simp

lemma execLoop_twoImages:
  "execLoop twoImagesContent 0 = [ascii ''http://a/b.png'', ascii ''http://c/d.gif'']"
  by code_simp

text \<open>C4 at the content \<open>A ![x](http://a/b.png) B http://c/d.gif\<close>.\<close>

theorem C4_first_reference_only_witness:
  "\<forall>p e img mime prompt maskBase64 secondaryImage.
     \<exists>ts ws. list_all2 isSyntaxOf ws [ascii ''http://a/b.png'', ascii ''http://c/d.gif''] \<and>
       length ts = Suc (length ws) \<and> twoImagesContent = interleave ts ws \<and>
       editImage p e (respond 200 (ascii ''OK'') twoImagesBody) img mime prompt maskBase64
         secondaryImage =
         Inr \<lparr>imageUrl = Some (ascii ''http://a/b.png''),
              text' = nonEmptyText (trim (concat ts)), videoUrl = None\<rparr>"
  using C4_first_reference_only [of "respond 200 (ascii ''OK'') twoImagesBody" _ _ _ _ _ _ _
      twoImagesContent "ascii ''http://a/b.png''" "ascii ''http://c/d.gif''" "[]",
      OF successContent_twoImages execLoop_twoImages]
  by blast

definition oneMarkdownBody :: jsstring where
  \<open>oneMarkdownBody = ascii ''{"choices":[{"message":{"content":"Here ![cat](https://x.y/z.png) ok"}}]}''\<close>

definition oneMarkdownContent :: jsstring where
  "oneMarkdownContent = ascii ''Here ![cat](https://x.y/z.png) ok''"

lemma successContent_oneMarkdown:
  "successContent (respond 200 (ascii ''OK'') oneMarkdownBody request) = Some (JStr oneMarkdownContent)"
  by code_simp

lemma collectMatches_oneMarkdown:
  "collectMatches oneMarkdownContent 0 =
     [(5, ascii ''![cat](https://x.y/z.png)'', Some (ascii ''https://x.y/z.png''))]"
  by code_simp

text \<open>C6 at the content \<open>Here ![cat](https://x.y/z.png) ok\<close>.\<close>

theorem C6_single_markdown_reference_witness:
  "\<forall>p e img mime prompt maskBase64 secondaryImage.
     \<exists>pre a post. oneMarkdownContent = pre @ mdText a (ascii ''https://x.y/z.png'') @ post \<and>
       editImage p e (respond 200 (ascii ''OK'') oneMarkdownBody) img mime prompt maskBase64
         secondaryImage =
         Inr \<lparr>imageUrl = Some (ascii ''https://x.y/z.png''),
              text' = nonEmptyText (trim (pre @ post)), videoUrl = None\<rparr>"
  using C6_single_markdown_reference [of "respond 200 (ascii ''OK'') oneMarkdownBody" _ _ _ _ _ _ _
      oneMarkdownContent 5 "ascii ''![cat](https://x.y/z.png)''" "ascii ''https://x.y/z.png''",
      OF successContent_oneMarkdown collectMatches_oneMarkdown]
  by blast

section \<open>Malformed responses\<close>




















section \<open>\<open>generateVideo\<close>: failure and the text of the result\<close>

text \<open>
  C8: when the delegated \<open>editImage\<close> call fails, the failure is an \<open>Error\<close> with some
  message, \<open>generateVideo\<close> rejects with the video-failed prefix followed by that message,
  and the progress callback was not called with 100.
\<close>

theorem C8_video_failure_wrapped:
  assumes "editImage p e fetch (imageDataOr img) (imageMimeOr img) (videoPrompt prompt aspectRatio)
             None None = Inl failure"
  shows "\<exists>m. failure = ErrorObj m \<and>
           snd (generateVideo p e fetch prompt img aspectRatio onProgress) =
             Inl (ErrorObj (videoFailedPrefix @ m)) \<and>
           100 \<notin> set (fst (generateVideo p e fetch prompt img aspectRatio onProgress))"
proof -
  from editImage_rejects_with_Error [OF assms] obtain m where m: "failure = ErrorObj m" by blast
  with assms show ?thesis
    by (simp add: generateVideo_def report_def)
qed

lemma JSON_parse_failedToFetch: "JSON_parse (ascii ''Failed to fetch'') = None"
  by (simp add: ascii_def JSON_parse_bad_start isJsonWhitespace_def isDigit_def)

lemma editImage_fetch_rejects:
  "editImage p e (\<lambda>request. FetchRejects (ErrorObj (ascii ''Failed to fetch''))) img mime prompt
     maskBase64 secondaryImage = Inl (ErrorObj (ascii ''Failed to fetch''))"
  by (simp add: editImage_def editImageTry_def remapMessage_bad_start JSON_parse_failedToFetch)

text \<open>C8 when \<open>fetch\<close> rejects with \<open>Failed to fetch\<close>.\<close>

theorem C8_video_failure_wrapped_witness:
  "\<forall>p e prompt img aspectRatio onProgress.
     snd (generateVideo p e (\<lambda>request. FetchRejects (ErrorObj (ascii ''Failed to fetch''))) prompt
            img aspectRatio onProgress) =
       Inl (ErrorObj (videoFailedPrefix @ ascii ''Failed to fetch'')) \<and>
     100 \<notin> set (fst (generateVideo p e
                        (\<lambda>request. FetchRejects (ErrorObj (ascii ''Failed to fetch''))) prompt img
                        aspectRatio onProgress))"
proof (intro allI)
  fix p e prompt img aspectRatio onProgress
  from C8_video_failure_wrapped [of p e
      "\<lambda>request. FetchRejects (ErrorObj (ascii ''Failed to fetch''))" img prompt aspectRatio
      "ErrorObj (ascii ''Failed to fetch'')" onProgress, OF editImage_fetch_rejects]
  show "snd (generateVideo p e (\<lambda>request. FetchRejects (ErrorObj (ascii ''Failed to fetch''))) prompt
            img aspectRatio onProgress) =
       Inl (ErrorObj (videoFailedPrefix @ ascii ''Failed to fetch'')) \<and>
     100 \<notin> set (fst (generateVideo p e
                        (\<lambda>request. FetchRejects (ErrorObj (ascii ''Failed to fetch''))) prompt img
                        aspectRatio onProgress))"
    by auto
qed

text \<open>
  C10: when the delegated \<open>editImage\<close> result has no text, the text of the video result
  is the four characters \<open>null\<close> followed by the disclaimer.
\<close>

theorem C10_null_text_prefix:
  assumes "editImage p e fetch (imageDataOr img) (imageMimeOr img) (videoPrompt prompt aspectRatio)
             None None = Inr imageResult"
    and "text' imageResult = None"
  shows "snd (generateVideo p e fetch prompt img aspectRatio onProgress) =
           Inr \<lparr>imageUrl = imageUrl imageResult,
                text' = Some (ascii ''null'' @ videoDisclaimer),
                videoUrl = Some (ascii ''data:video/mp4;base64,'')\<rparr>"
  using assms by (simp add: generateVideo_def concatText_def)

definition onlyImageBody :: jsstring where
  \<open>onlyImageBody = ascii ''{"choices":[{"message":{"content":"![x](http://a/b.png)"}}]}''\<close>

lemma successContent_onlyImage:
  "successContent (respond 200 (ascii ''OK'') onlyImageBody request) =
     Some (JStr (ascii ''![x](http://a/b.png)''))"
  by code_simp

lemma parseContent_onlyImage:
  "parseContent (ascii ''![x](http://a/b.png)'') =
     Inr \<lparr>imageUrl = Some (ascii ''http://a/b.png''), text' = None, videoUrl = None\<rparr>"
  by code_simp

lemma editImage_onlyImage:
  "editImage p e (respond 200 (ascii ''OK'') onlyImageBody) img mime prompt maskBase64
     secondaryImage =
     Inr \<lparr>imageUrl = Some (ascii ''http://a/b.png''), text' = None, videoUrl = None\<rparr>"
  by (simp add: editImage_content [of "respond 200 (ascii ''OK'') onlyImageBody" p e img mime prompt
        maskBase64 secondaryImage "ascii ''![x](http://a/b.png)''", OF successContent_onlyImage]
      parseContent_onlyImage)

text \<open>C10 at the content \<open>![x](http://a/b.png)\<close>, which leaves no text.\<close>

theorem C10_null_text_prefix_witness:
  "\<forall>p e prompt img aspectRatio onProgress.
     snd (generateVideo p e (respond 200 (ascii ''OK'') onlyImageBody) prompt img aspectRatio
            onProgress) =
       Inr \<lparr>imageUrl = Some (ascii ''http://a/b.png''),
            text' = Some (ascii ''null'' @ videoDisclaimer),
            videoUrl = Some (ascii ''data:video/mp4;base64,'')\<rparr>"
proof (intro allI)
  fix p e prompt img aspectRatio onProgress
  from C10_null_text_prefix [of p e "respond 200 (ascii ''OK'') onlyImageBody" img prompt
      aspectRatio "\<lparr>imageUrl = Some (ascii ''http://a/b.png''), text' = None, videoUrl = None\<rparr>"
      onProgress, OF editImage_onlyImage]
  show "snd (generateVideo p e (respond 200 (ascii ''OK'') onlyImageBody) prompt img aspectRatio
            onProgress) =
       Inr \<lparr>imageUrl = Some (ascii ''http://a/b.png''),
            text' = Some (ascii ''null'' @ videoDisclaimer),
            videoUrl = Some (ascii ''data:video/mp4;base64,'')\<rparr>"
    by simp
qed

end
